theory Spec2Isabelle
  imports Complex_Main "HOL-Library.Char_ord" "HOL-Library.List_Lexorder" "HOL-Library.AList"
begin

section \<open>Python values used by \<open>main.py\<close>\<close>

text \<open>
  The embedding follows \<open>src/main.py\<close>: \<open>parse_gtfs_time\<close>,
  \<open>get_active_services_on_date\<close> and the part of
  \<open>calculate_service_hours_from_url\<close> that starts once \<open>gtfs_data\<close> has been read
  (line 107 onwards). Every \<open>raise\<close> that can leave one of these functions is a value
  of \<open>py_error\<close>; results are \<open>py_error + 'a\<close> with \<open>Inl\<close> the exception.
\<close>

datatype py_error =
    KeyError string
  | OverflowError
  | AttributeError

subsection \<open>\<open>str.split\<close> and \<open>int\<close>\<close>

text \<open>\<open>t.split(":")\<close>: the fields between the separators, always at least one.\<close>

fun str_split :: "char \<Rightarrow> string \<Rightarrow> string list" where
  "str_split sep [] = [[]]"
| "str_split sep (c # cs) =
     (if c = sep then [] # str_split sep cs
      else (case str_split sep cs of
              [] \<Rightarrow> [[c]]
            | f # fs \<Rightarrow> (c # f) # fs))"

text \<open>
  \<open>int(s)\<close> on a string: surrounding whitespace is stripped, one optional sign, then
  decimal digits which may be separated by single underscores. \<open>None\<close> stands for the
  \<open>ValueError\<close> that \<open>int\<close> raises on anything else, also on more than 4300 digits
  (the default limit of CPython). Strings are byte strings here, so only the ASCII digits
  and the ASCII whitespace of \<open>str.isspace\<close> are recognised.
\<close>

definition is_space :: "char \<Rightarrow> bool" where
  "is_space c \<longleftrightarrow>
     c \<in> set [CHR '' '', CHR 0x09, CHR 0x0A, CHR 0x0B, CHR 0x0C, CHR 0x0D,
              CHR 0x1C, CHR 0x1D, CHR 0x1E, CHR 0x1F]"

definition strip :: "string \<Rightarrow> string" where
  "strip s = rev (dropWhile is_space (rev (dropWhile is_space s)))"

definition is_digit :: "char \<Rightarrow> bool" where
  "is_digit c \<longleftrightarrow> c \<in> set ''0123456789''"

definition digit_val :: "char \<Rightarrow> int" where
  "digit_val c = int (length (takeWhile (\<lambda>d. d \<noteq> c) ''0123456789''))"

fun digits_value :: "int \<Rightarrow> string \<Rightarrow> int option" where
  "digits_value acc [] = Some acc"
| "digits_value acc (c # cs) =
     (if is_digit c then digits_value (10 * acc + digit_val c) cs
      else if c = CHR ''_'' then
        (case cs of
           [] \<Rightarrow> None
         | d # ds \<Rightarrow> if is_digit d then digits_value (10 * acc + digit_val d) ds else None)
      else None)"

definition py_int :: "string \<Rightarrow> int option" where
  "py_int s =
     (let t = strip s;
          (sign, body) =
            (case t of
               [] \<Rightarrow> (1, t)
             | c # cs \<Rightarrow> if c = CHR ''-'' then (- 1, cs)
                        else if c = CHR ''+'' then (1, cs) else (1, t))
      in case body of
           [] \<Rightarrow> None
         | c # cs \<Rightarrow> if is_digit c \<and> length (filter is_digit body) \<le> 4300
                    then map_option (\<lambda>v. sign * v) (digits_value 0 body)
                    else None)"

subsection \<open>\<open>datetime.timedelta\<close>\<close>

text \<open>
  A \<open>timedelta\<close> built from whole hours, minutes and seconds is a whole number of
  seconds. Python normalises it to days and seconds and raises \<open>OverflowError\<close> when the
  number of days has magnitude above 999999999.
\<close>

definition timedelta_in_range :: "int \<Rightarrow> bool" where
  "timedelta_in_range secs \<longleftrightarrow>
     - 999999999 \<le> secs div 86400 \<and> secs div 86400 \<le> 999999999"

definition timedelta :: "int \<Rightarrow> int \<Rightarrow> int \<Rightarrow> py_error + int" where
  "timedelta h m s =
     (let secs = 3600 * h + 60 * m + s
      in if timedelta_in_range secs then Inr secs else Inl OverflowError)"

definition timedelta_sub :: "int \<Rightarrow> int \<Rightarrow> py_error + int" where
  "timedelta_sub a b = (if timedelta_in_range (a - b) then Inr (a - b) else Inl OverflowError)"

subsection \<open>Floating point\<close>

text \<open>
  \<open>total_hours\<close> is a Python float. A finite double is modelled by the real number it
  denotes, and every operation rounds its exact result to the nearest double, ties to
  even (53 significant bits). Overflow to infinity and subnormal numbers are not
  modelled: the values met here are quotients of whole seconds by 3600 and their sums.
\<close>

function bit_length :: "int \<Rightarrow> int" where
  "bit_length n = (if n \<le> 0 then 0 else 1 + bit_length (n div 2))"
  by pat_completeness auto
termination
  by (relation "measure nat") auto

declare bit_length.simps [simp del]

definition pow2 :: "int \<Rightarrow> real" where
  "pow2 e = (if 0 \<le> e then 2 ^ nat e else 1 / 2 ^ nat (- e))"

definition round_half_even :: "real \<Rightarrow> int" where
  "round_half_even q =
     (let f = \<lfloor>q\<rfloor>; r = q - of_int f
      in if r < 1 / 2 then f
         else if 1 / 2 < r then f + 1
         else if even f then f else f + 1)"

text \<open>The binary exponent \<open>e\<close> of a non-zero \<open>x\<close>: \<open>2 ^ e \<le> \<bar>x\<bar> < 2 ^ (e + 1)\<close>.\<close>

definition float_exponent :: "real \<Rightarrow> int" where
  "float_exponent x =
     (if 1 \<le> \<bar>x\<bar> then bit_length \<lfloor>\<bar>x\<bar>\<rfloor> - 1
      else - bit_length (\<lceil>1 / \<bar>x\<bar>\<rceil> - 1))"

definition round_double :: "real \<Rightarrow> real" where
  "round_double x =
     (if x = 0 then 0
      else let ulp = pow2 (float_exponent x - 52)
           in of_int (round_half_even (x / ulp)) * ulp)"

definition float_add :: "real \<Rightarrow> real \<Rightarrow> real" where
  "float_add x y = round_double (x + y)"

text \<open>
  \<open>td.total_seconds() / 3600.0\<close>: the whole number of seconds is exact as a double
  (below \<open>2 ^ 53\<close> for every \<open>timedelta\<close>), so the quotient is rounded once.
\<close>

definition hours_of_timedelta :: "int \<Rightarrow> real" where
  "hours_of_timedelta secs = round_double (of_int secs / 3600)"

section \<open>\<open>parse_gtfs_time\<close>\<close>

text \<open>
  A cell of a table: a string, the \<open>NaN\<close> that \<open>read_csv\<close> puts where a value is
  missing, a timestamp (a whole day, counted from 1970-01-01), the missing timestamp
  \<open>NaT\<close>, or a \<open>timedelta\<close> in seconds.
\<close>

datatype cell = Str string | NaN | Ts int | NaT | Td int

definition isna :: "cell \<Rightarrow> bool" where
  "isna c \<longleftrightarrow> c = NaN \<or> c = NaT"

text \<open>
  \<open>h, m, s = map(int, t.split(":"))\<close> raises \<open>ValueError\<close> when there are not exactly
  three fields or when \<open>int\<close> rejects a field; the \<open>except ValueError\<close> turns both into
  \<open>None\<close>. The \<open>OverflowError\<close> of \<open>timedelta\<close> is not a \<open>ValueError\<close> and leaves the
  function, and so does the \<open>AttributeError\<close> of \<open>t.split\<close> on a value that is neither
  missing nor a string.
\<close>

definition parse_gtfs_time :: "cell \<Rightarrow> py_error + int option" where
  "parse_gtfs_time t =
     (if isna t then Inr None
      else case t of
             Str text \<Rightarrow>
               (case map py_int (str_split CHR '':'' text) of
                  [Some h, Some m, Some s] \<Rightarrow>
                    (case timedelta h m s of
                       Inl e \<Rightarrow> Inl e
                     | Inr td \<Rightarrow> Inr (Some td))
                | _ \<Rightarrow> Inr None)
           | _ \<Rightarrow> Inl AttributeError)"

section \<open>Dates\<close>

text \<open>
  A date of the range, a \<open>pd.Timestamp\<close> at midnight, is its day number from 1970-01-01.
  The civil calendar is the proleptic Gregorian one of \<open>datetime\<close>.
\<close>

definition civil_from_days :: "int \<Rightarrow> int \<times> int \<times> int" where
  "civil_from_days n =
     (let z = n + 719468;
          era = z div 146097;
          doe = z mod 146097;
          yoe = (doe - doe div 1460 + doe div 36524 - doe div 146096) div 365;
          doy = doe - (365 * yoe + yoe div 4 - yoe div 100);
          mp = (5 * doy + 2) div 153;
          d = doy - (153 * mp + 2) div 5 + 1;
          m = (if mp < 10 then mp + 3 else mp - 9);
          y = yoe + era * 400 + (if m \<le> 2 then 1 else 0)
      in (y, m, d))"

definition days_from_civil :: "int \<Rightarrow> int \<Rightarrow> int \<Rightarrow> int" where
  "days_from_civil y m d =
     (let y' = (if m \<le> 2 then y - 1 else y);
          era = y' div 400;
          yoe = y' mod 400;
          doy = (153 * (if 2 < m then m - 3 else m + 9) + 2) div 5 + d - 1;
          doe = yoe * 365 + yoe div 4 - yoe div 100 + doy
      in era * 146097 + doe - 719468)"

definition is_leap :: "int \<Rightarrow> bool" where
  "is_leap y \<longleftrightarrow> y mod 4 = 0 \<and> (y mod 100 \<noteq> 0 \<or> y mod 400 = 0)"

definition days_in_month :: "int \<Rightarrow> int \<Rightarrow> int" where
  "days_in_month y m =
     (if m = 2 then (if is_leap y then 29 else 28)
      else if m \<in> set [4, 6, 9, 11] then 30 else 31)"

text \<open>\<open>target_date.strftime("%A").lower()\<close>; day 0 is a Thursday.\<close>

definition weekday_name :: "int \<Rightarrow> string" where
  "weekday_name n =
     [''monday'', ''tuesday'', ''wednesday'', ''thursday'', ''friday'', ''saturday'', ''sunday'']
       ! nat ((n + 3) mod 7)"

definition digit_char :: "int \<Rightarrow> char" where
  "digit_char k = ''0123456789'' ! nat (k mod 10)"

text \<open>\<open>target_date.strftime("%Y%m%d")\<close>, for the four-digit years of a \<open>pd.Timestamp\<close>.\<close>

definition strftime_Ymd :: "int \<Rightarrow> string" where
  "strftime_Ymd n =
     (let (y, m, d) = civil_from_days n
      in [digit_char (y div 1000), digit_char (y div 100), digit_char (y div 10), digit_char y,
          digit_char (m div 10), digit_char m, digit_char (d div 10), digit_char d])"

definition digits_to_int :: "string \<Rightarrow> int" where
  "digits_to_int s = foldl (\<lambda>acc c. 10 * acc + digit_val c) 0 s"

text \<open>
  \<open>pd.to_datetime(text, format="%Y%m%d", errors='coerce')\<close> on one string: the day
  number of an eight-digit calendar date that a \<open>pd.Timestamp\<close> can hold (1677-09-22 to
  2262-04-11), and \<open>None\<close>, the \<open>NaT\<close> of the coercion, otherwise. Strings that are not
  the eight digits of the GTFS date format are taken as not parsable.
\<close>

definition to_datetime_Ymd :: "string \<Rightarrow> int option" where
  "to_datetime_Ymd text =
     (if length text = 8 \<and> list_all is_digit text then
        (let y = digits_to_int (take 4 text);
             m = digits_to_int (take 2 (drop 4 text));
             d = digits_to_int (drop 6 text)
         in if 1 \<le> m \<and> m \<le> 12 \<and> 1 \<le> d \<and> d \<le> days_in_month y m then
              (let n = days_from_civil y m d
               in if - 106751 \<le> n \<and> n \<le> 106751 then Some n else None)
            else None)
      else None)"

section \<open>Tables\<close>

text \<open>
  A \<open>pd.DataFrame\<close> read by \<open>read_csv(dtype=str)\<close>: the column labels in order and the
  rows, each row giving the cell under every label. \<open>df[col] = values\<close> replaces the cells
  of an existing column and appends a new column otherwise; it changes the frame it is
  applied to, so every function that assigns to a column returns the changed frame.
\<close>

type_synonym row = "(string \<times> cell) list"

record DataFrame =
  columns :: "string list"
  rows :: "row list"

definition df_empty :: "DataFrame \<Rightarrow> bool" where
  "df_empty df \<longleftrightarrow> columns df = [] \<or> rows df = []"

definition cell_at :: "row \<Rightarrow> string \<Rightarrow> cell" where
  "cell_at r col = (case map_of r col of None \<Rightarrow> NaN | Some c \<Rightarrow> c)"

definition set_column :: "DataFrame \<Rightarrow> string \<Rightarrow> (row \<Rightarrow> cell) \<Rightarrow> DataFrame" where
  "set_column df col f =
     \<lparr>columns = (if col \<in> set (columns df) then columns df else columns df @ [col]),
      rows = map (\<lambda>r. AList.update col (f r) r) (rows df)\<rparr>"

definition empty_frame :: "string list \<Rightarrow> DataFrame" where
  "empty_frame cols = \<lparr>columns = cols, rows = []\<rparr>"

text \<open>
  \<open>pd.api.types.is_datetime64_any_dtype(df[col])\<close>: a column holds timestamps once it
  has been assigned from \<open>pd.to_datetime\<close>; the columns that \<open>read_csv(dtype=str)\<close>
  delivers hold strings and \<open>NaN\<close>. With no rows, converting or not leaves the same frame.
\<close>

definition is_datetime64_any_dtype :: "DataFrame \<Rightarrow> string \<Rightarrow> bool" where
  "is_datetime64_any_dtype df col \<longleftrightarrow>
     list_all (\<lambda>r. case cell_at r col of Ts _ \<Rightarrow> True | NaT \<Rightarrow> True | _ \<Rightarrow> False) (rows df)"

definition to_datetime :: "cell \<Rightarrow> cell" where
  "to_datetime c =
     (case c of
        Str text \<Rightarrow> (case to_datetime_Ymd text of None \<Rightarrow> NaT | Some n \<Rightarrow> Ts n)
      | Ts n \<Rightarrow> Ts n
      | _ \<Rightarrow> NaT)"

text \<open>Comparison of a timestamp cell with a timestamp; \<open>NaT\<close> compares false.\<close>

definition ts_le :: "cell \<Rightarrow> int \<Rightarrow> bool" where
  "ts_le c n \<longleftrightarrow> (case c of Ts k \<Rightarrow> k \<le> n | _ \<Rightarrow> False)"

definition ts_ge :: "cell \<Rightarrow> int \<Rightarrow> bool" where
  "ts_ge c n \<longleftrightarrow> (case c of Ts k \<Rightarrow> n \<le> k | _ \<Rightarrow> False)"

text \<open>\<open>series.astype(str)\<close> and \<open>series.dt.strftime("%Y%m%d")\<close> on one cell.\<close>

definition astype_str :: "cell \<Rightarrow> cell" where
  "astype_str c = (case c of Str text \<Rightarrow> Str text | NaN \<Rightarrow> Str ''nan'' | _ \<Rightarrow> c)"

definition dt_strftime :: "cell \<Rightarrow> cell" where
  "dt_strftime c = (case c of Ts n \<Rightarrow> Str (strftime_Ymd n) | _ \<Rightarrow> NaN)"

section \<open>\<open>get_active_services_on_date\<close>\<close>

text \<open>
  The function assigns to \<open>calendar["start_date"]\<close>, \<open>calendar["end_date"]\<close> and
  \<open>calendar_dates["date_str"]\<close> of the frames it is handed, so it returns them with
  the services. The returned list is built from a Python set and only tested for
  emptiness and membership by the caller; it is the set here.
\<close>

definition get_active_services_on_date ::
    "int \<Rightarrow> DataFrame \<Rightarrow> DataFrame \<Rightarrow> cell set \<times> DataFrame \<times> DataFrame" where
  "get_active_services_on_date target_date calendar calendar_dates =
     (let weekday = weekday_name target_date;
          target_date_yyyymmdd = strftime_Ymd target_date;
          (base_services, calendar) =
            (if \<not> df_empty calendar \<and>
                list_all (\<lambda>col. col \<in> set (columns calendar))
                  [weekday, ''start_date'', ''end_date'', ''service_id'']
             then
               (let calendar =
                      (if \<not> is_datetime64_any_dtype calendar ''start_date''
                       then set_column calendar ''start_date'' (\<lambda>r. to_datetime (cell_at r ''start_date''))
                       else calendar);
                    calendar =
                      (if \<not> is_datetime64_any_dtype calendar ''end_date''
                       then set_column calendar ''end_date'' (\<lambda>r. to_datetime (cell_at r ''end_date''))
                       else calendar);
                    active_calendar =
                      filter (\<lambda>r. cell_at r weekday = Str ''1'' \<and>
                                   ts_le (cell_at r ''start_date'') target_date \<and>
                                   ts_ge (cell_at r ''end_date'') target_date)
                        (rows calendar)
                in (set (map (\<lambda>r. cell_at r ''service_id'') active_calendar), calendar))
             else ({}, calendar));
          (added_services, removed_services, calendar_dates) =
            (if \<not> df_empty calendar_dates \<and>
                list_all (\<lambda>col. col \<in> set (columns calendar_dates))
                  [''date'', ''exception_type'', ''service_id'']
             then
               (let calendar_dates =
                      (if is_datetime64_any_dtype calendar_dates ''date''
                       then set_column calendar_dates ''date_str'' (\<lambda>r. dt_strftime (cell_at r ''date''))
                       else set_column calendar_dates ''date_str'' (\<lambda>r. astype_str (cell_at r ''date'')))
                in (set (map (\<lambda>r. cell_at r ''service_id'')
                          (filter (\<lambda>r. cell_at r ''date_str'' = Str target_date_yyyymmdd \<and>
                                       cell_at r ''exception_type'' = Str ''1'')
                             (rows calendar_dates))),
                    set (map (\<lambda>r. cell_at r ''service_id'')
                          (filter (\<lambda>r. cell_at r ''date_str'' = Str target_date_yyyymmdd \<and>
                                       cell_at r ''exception_type'' = Str ''2'')
                             (rows calendar_dates))),
                    calendar_dates))
             else ({}, {}, calendar_dates))
      in ((base_services \<union> added_services) - removed_services, calendar, calendar_dates))"

section \<open>\<open>calculate_service_hours_from_url\<close>\<close>

subsection \<open>The required files (lines 107 to 119)\<close>

text \<open>
  \<open>gtfs_data\<close> is the dictionary that \<open>read_gtfs_from_zip\<close> returns, from file names to
  frames. \<open>return_zero\<close> is the \<open>return 0.0\<close> of line 119.
\<close>

type_synonym gtfs_data = "string \<rightharpoonup> DataFrame"

definition missing_or_empty :: "gtfs_data \<Rightarrow> string \<Rightarrow> bool" where
  "missing_or_empty gtfs_data name \<longleftrightarrow>
     (case gtfs_data name of None \<Rightarrow> True | Some df \<Rightarrow> df_empty df)"

definition default_calendar_dates :: "gtfs_data \<Rightarrow> gtfs_data" where
  "default_calendar_dates gtfs_data =
     (if gtfs_data ''calendar_dates.txt'' = None
      then gtfs_data(''calendar_dates.txt'' \<mapsto>
             empty_frame [''service_id'', ''date'', ''exception_type''])
      else gtfs_data)"

definition calendar_columns :: "string list" where
  "calendar_columns =
     [''service_id'', ''monday'', ''tuesday'', ''wednesday'', ''thursday'', ''friday'',
      ''saturday'', ''sunday'', ''start_date'', ''end_date'']"

definition required_files :: "string list" where
  "required_files = [''calendar.txt'', ''trips.txt'', ''stop_times.txt'']"

datatype 'a flow = return_zero | proceed 'a

fun check_required_files :: "string list \<Rightarrow> gtfs_data \<Rightarrow> gtfs_data flow" where
  "check_required_files [] gtfs_data = proceed gtfs_data"
| "check_required_files (req_file # rest) gtfs_data =
     (if missing_or_empty gtfs_data req_file then
        (if req_file = ''calendar.txt'' \<and> \<not> missing_or_empty gtfs_data ''calendar_dates.txt''
         then check_required_files rest (gtfs_data(req_file \<mapsto> empty_frame calendar_columns))
         else return_zero)
      else check_required_files rest gtfs_data)"

definition getitem :: "gtfs_data \<Rightarrow> string \<Rightarrow> py_error + DataFrame" where
  "getitem gtfs_data name =
     (case gtfs_data name of None \<Rightarrow> Inl (KeyError name) | Some df \<Rightarrow> Inr df)"

subsection \<open>Preprocessing (lines 127 to 135)\<close>

definition normalize_calendar :: "DataFrame \<Rightarrow> DataFrame" where
  "normalize_calendar calendar =
     (let calendar =
            (if ''start_date'' \<notin> set (columns calendar)
             then set_column calendar ''start_date'' (\<lambda>r. NaT) else calendar);
          calendar =
            (if ''end_date'' \<notin> set (columns calendar)
             then set_column calendar ''end_date'' (\<lambda>r. NaT) else calendar);
          calendar =
            (if ''start_date'' \<in> set (columns calendar) \<and>
                \<not> is_datetime64_any_dtype calendar ''start_date''
             then set_column calendar ''start_date'' (\<lambda>r. to_datetime (cell_at r ''start_date''))
             else calendar);
          calendar =
            (if ''end_date'' \<in> set (columns calendar) \<and>
                \<not> is_datetime64_any_dtype calendar ''end_date''
             then set_column calendar ''end_date'' (\<lambda>r. to_datetime (cell_at r ''end_date''))
             else calendar)
      in calendar)"

definition fillna :: "cell \<Rightarrow> cell \<Rightarrow> cell" where
  "fillna c other = (if isna c then other else c)"

text \<open>
  Lines 133 and 134 read both columns before the test of line 135 looks whether they
  exist: a frame without one of them raises \<open>KeyError\<close> at line 133.
\<close>

definition fill_stop_times :: "DataFrame \<Rightarrow> py_error + DataFrame flow" where
  "fill_stop_times stop_times =
     (if ''arrival_time'' \<notin> set (columns stop_times) then Inl (KeyError ''arrival_time'')
      else if ''departure_time'' \<notin> set (columns stop_times) then Inl (KeyError ''departure_time'')
      else
        (let stop_times =
               set_column stop_times ''arrival_time''
                 (\<lambda>r. fillna (cell_at r ''arrival_time'') (cell_at r ''departure_time''));
             stop_times =
               set_column stop_times ''departure_time''
                 (\<lambda>r. fillna (cell_at r ''departure_time'') (cell_at r ''arrival_time''))
         in if ''arrival_time'' \<notin> set (columns stop_times) \<or>
               ''departure_time'' \<notin> set (columns stop_times)
            then Inr return_zero
            else Inr (proceed stop_times)))"

subsection \<open>One date: lines 145 to 170\<close>

text \<open>
  \<open>left.merge(right, on=key, how="inner")\<close>: one row for every pair of rows with the same
  key cell; the columns of \<open>left\<close>, then those of \<open>right\<close> without the key; a label found
  on both sides gets the suffix \<open>_x\<close> or \<open>_y\<close>.
\<close>

definition merge :: "DataFrame \<Rightarrow> DataFrame \<Rightarrow> string \<Rightarrow> DataFrame" where
  "merge left right on =
     (let lname = (\<lambda>c. if c \<noteq> on \<and> c \<in> set (columns right) then c @ ''_x'' else c);
          rname = (\<lambda>c. if c \<in> set (columns left) then c @ ''_y'' else c)
      in \<lparr>columns = map lname (columns left) @ map rname (filter (\<lambda>c. c \<noteq> on) (columns right)),
          rows =
            concat (map (\<lambda>l.
              map (\<lambda>r. map (\<lambda>(c, v). (lname c, v)) l @
                        map (\<lambda>(c, v). (rname c, v)) (filter (\<lambda>(c, v). c \<noteq> on) r))
                (filter (\<lambda>r. cell_at r on = cell_at l on) (rows right)))
              (rows left))\<rparr>)"

fun first_error :: "('e + 'a) list \<Rightarrow> 'e option" where
  "first_error [] = None"
| "first_error (Inl e # xs) = Some e"
| "first_error (Inr v # xs) = first_error xs"

definition timedelta_cell :: "py_error + int option \<Rightarrow> cell" where
  "timedelta_cell res = (case res of Inr (Some td) \<Rightarrow> Td td | _ \<Rightarrow> NaT)"

text \<open>
  \<open>df[dst] = df[src].apply(parse_gtfs_time)\<close>: the first exception of
  \<open>parse_gtfs_time\<close> ends the call; otherwise the new column holds the results.
\<close>

definition apply_parse_gtfs_time :: "DataFrame \<Rightarrow> string \<Rightarrow> string \<Rightarrow> py_error + DataFrame" where
  "apply_parse_gtfs_time df src dst =
     (if src \<notin> set (columns df) then Inl (KeyError src)
      else case first_error (map (\<lambda>r. parse_gtfs_time (cell_at r src)) (rows df)) of
             Some e \<Rightarrow> Inl e
           | None \<Rightarrow> Inr (set_column df dst (\<lambda>r. timedelta_cell (parse_gtfs_time (cell_at r src)))))"

definition dropna :: "DataFrame \<Rightarrow> string list \<Rightarrow> DataFrame" where
  "dropna df cols =
     df\<lparr>rows := filter (\<lambda>r. list_all (\<lambda>col. \<not> isna (cell_at r col)) cols) (rows df)\<rparr>"

text \<open>
  \<open>df.groupby(col)\<close>: the groups in the sorted order of their keys; rows whose key is
  missing belong to no group. The key columns \<open>trip_id\<close> and \<open>block_id\<close> hold strings.
\<close>

definition group_keys :: "row list \<Rightarrow> string \<Rightarrow> string list" where
  "group_keys rs col =
     sort (remdups (concat (map (\<lambda>r. case cell_at r col of Str k \<Rightarrow> [k] | _ \<Rightarrow> []) rs)))"

definition groupby :: "DataFrame \<Rightarrow> string \<Rightarrow> (string \<times> row list) list" where
  "groupby df col =
     map (\<lambda>k. (k, filter (\<lambda>r. cell_at r col = Str k) (rows df))) (group_keys (rows df) col)"

definition timedelta_values :: "row list \<Rightarrow> string \<Rightarrow> int list" where
  "timedelta_values rs col = concat (map (\<lambda>r. case cell_at r col of Td n \<Rightarrow> [n] | _ \<Rightarrow> []) rs)"

definition series_min :: "int list \<Rightarrow> int option" where
  "series_min xs = (case xs of [] \<Rightarrow> None | x # ys \<Rightarrow> Some (fold min ys x))"

definition series_max :: "int list \<Rightarrow> int option" where
  "series_max xs = (case xs of [] \<Rightarrow> None | x # ys \<Rightarrow> Some (fold max ys x))"

text \<open>
  The body of both \<open>for \<dots> in merged.groupby(\<dots>)\<close> statements (lines 159 to 162 and 167
  to 170). The \<open>group.empty\<close> test of line 166 never holds: a group has a row, and
  \<open>merged\<close> has columns.
\<close>

definition add_span :: "row list \<Rightarrow> real \<Rightarrow> py_error + real" where
  "add_span grp total_hours =
     (case (series_min (timedelta_values grp ''departure_td''),
            series_max (timedelta_values grp ''arrival_td'')) of
        (Some start_td, Some end_td) \<Rightarrow>
          (if start_td < end_td then
             (case timedelta_sub end_td start_td of
                Inl e \<Rightarrow> Inl e
              | Inr diff \<Rightarrow> Inr (float_add total_hours (hours_of_timedelta diff)))
           else Inr total_hours)
      | _ \<Rightarrow> Inr total_hours)"

fun add_spans :: "(string \<times> row list) list \<Rightarrow> real \<Rightarrow> py_error + real" where
  "add_spans [] total_hours = Inr total_hours"
| "add_spans ((key, grp) # groups) total_hours =
     (case add_span grp total_hours of
        Inl e \<Rightarrow> Inl e
      | Inr total_hours \<Rightarrow> add_spans groups total_hours)"

text \<open>Lines 157 to 170: the choice between trips and blocks, and the sum over the groups.\<close>

definition sum_group_spans :: "DataFrame \<Rightarrow> real \<Rightarrow> py_error + real" where
  "sum_group_spans merged total_hours =
     (if ''block_id'' \<notin> set (columns merged) \<or>
         list_all (\<lambda>r. isna (cell_at r ''block_id'')) (rows merged)
      then add_spans (groupby merged ''trip_id'') total_hours
      else add_spans (groupby merged ''block_id'') total_hours)"

text \<open>Lines 152 to 170, on the joined frame.\<close>

definition aggregate :: "DataFrame \<Rightarrow> real \<Rightarrow> py_error + real" where
  "aggregate merged total_hours =
     (case apply_parse_gtfs_time merged ''arrival_time'' ''arrival_td'' of
        Inl e \<Rightarrow> Inl e
      | Inr merged \<Rightarrow>
     (case apply_parse_gtfs_time merged ''departure_time'' ''departure_td'' of
        Inl e \<Rightarrow> Inl e
      | Inr merged \<Rightarrow>
        (let merged = dropna merged [''arrival_td'', ''departure_td'']
         in if df_empty merged then Inr total_hours
            else sum_group_spans merged total_hours)))"

text \<open>
  The state of the loop over \<open>target_dates\<close>: the two calendar frames, which
  \<open>get_active_services_on_date\<close> assigns to, and \<open>total_hours\<close>.
\<close>

type_synonym loop_state = "DataFrame \<times> DataFrame \<times> real"

definition process_date :: "DataFrame \<Rightarrow> DataFrame \<Rightarrow> int \<Rightarrow> loop_state \<Rightarrow> py_error + loop_state" where
  "process_date trips stop_times date_obj st =
     (case st of (calendar, calendar_dates, total_hours) \<Rightarrow>
      (case get_active_services_on_date date_obj calendar calendar_dates of
         (active_services, calendar, calendar_dates) \<Rightarrow>
        if active_services = {} then Inr (calendar, calendar_dates, total_hours)
        else if ''service_id'' \<notin> set (columns trips) then Inl (KeyError ''service_id'')
        else
          (let trips_on_date =
                 trips\<lparr>rows := filter (\<lambda>r. cell_at r ''service_id'' \<in> active_services) (rows trips)\<rparr>
           in if df_empty trips_on_date then Inr (calendar, calendar_dates, total_hours)
              else if ''trip_id'' \<notin> set (columns trips_on_date) \<or>
                      ''trip_id'' \<notin> set (columns stop_times)
              then Inr (calendar, calendar_dates, total_hours)
              else
                (let merged = merge trips_on_date stop_times ''trip_id''
                 in if df_empty merged then Inr (calendar, calendar_dates, total_hours)
                    else (case aggregate merged total_hours of
                            Inl e \<Rightarrow> Inl e
                          | Inr total_hours \<Rightarrow> Inr (calendar, calendar_dates, total_hours))))))"

subsection \<open>The loop over the dates and the whole function\<close>

fun accumulate :: "DataFrame \<Rightarrow> DataFrame \<Rightarrow> int list \<Rightarrow> loop_state \<Rightarrow> py_error + loop_state" where
  "accumulate trips stop_times [] st = Inr st"
| "accumulate trips stop_times (date_obj # target_dates) st =
     (case process_date trips stop_times date_obj st of
        Inl e \<Rightarrow> Inl e
      | Inr st \<Rightarrow> accumulate trips stop_times target_dates st)"

text \<open>\<open>pd.date_range(start=start_date_dt, end=end_date_dt)\<close>: every day from the first to the last.\<close>

definition date_range :: "int \<Rightarrow> int \<Rightarrow> int list" where
  "date_range start_date_dt end_date_dt = [start_date_dt..end_date_dt]"

text \<open>
  The function from line 107 on, for the two dates that \<open>strptime\<close> has read. The
  download and \<open>read_gtfs_from_zip\<close> come before and are not part of it.
\<close>

definition calculate_service_hours_from_url :: "gtfs_data \<Rightarrow> int \<Rightarrow> int \<Rightarrow> py_error + real" where
  "calculate_service_hours_from_url gtfs_data start_date_dt end_date_dt =
     (case check_required_files required_files (default_calendar_dates gtfs_data) of
        return_zero \<Rightarrow> Inr 0
      | proceed gtfs_data \<Rightarrow>
     (case getitem gtfs_data ''calendar.txt'' of Inl e \<Rightarrow> Inl e | Inr calendar \<Rightarrow>
     (case getitem gtfs_data ''calendar_dates.txt'' of Inl e \<Rightarrow> Inl e | Inr calendar_dates \<Rightarrow>
     (case getitem gtfs_data ''trips.txt'' of Inl e \<Rightarrow> Inl e | Inr trips \<Rightarrow>
     (case getitem gtfs_data ''stop_times.txt'' of Inl e \<Rightarrow> Inl e | Inr stop_times \<Rightarrow>
     (case fill_stop_times stop_times of
        Inl e \<Rightarrow> Inl e
      | Inr return_zero \<Rightarrow> Inr 0
      | Inr (proceed stop_times) \<Rightarrow>
          (case accumulate trips stop_times (date_range start_date_dt end_date_dt)
                  (normalize_calendar calendar, calendar_dates, 0) of
             Inl e \<Rightarrow> Inl e
           | Inr (calendar, calendar_dates, total_hours) \<Rightarrow> Inr total_hours)))))))"

section \<open>The calendar rule in the words of the specification\<close>







section \<open>Feeds used as concrete inputs\<close>

text \<open>
  The example of the specification: service \<open>S1\<close> runs Monday to Friday in January
  2024, trips \<open>T1\<close> and \<open>T2\<close> share block \<open>B1\<close>; a REMOVE exception takes \<open>S1\<close> out on
  2024-01-03. Day 19724 is Tuesday 2024-01-02.
\<close>

definition ex_calendar :: DataFrame where
  "ex_calendar =
     \<lparr>columns = calendar_columns,
      rows = [[(''service_id'', Str ''S1''), (''monday'', Str ''1''), (''tuesday'', Str ''1''),
               (''wednesday'', Str ''1''), (''thursday'', Str ''1''), (''friday'', Str ''1''),
               (''saturday'', Str ''0''), (''sunday'', Str ''0''),
               (''start_date'', Str ''20240101''), (''end_date'', Str ''20240131'')]]\<rparr>"

definition ex_calendar_dates :: DataFrame where
  "ex_calendar_dates =
     \<lparr>columns = [''service_id'', ''date'', ''exception_type''],
      rows = [[(''service_id'', Str ''S1''), (''date'', Str ''20240103''),
               (''exception_type'', Str ''2'')]]\<rparr>"

definition ex_trips :: DataFrame where
  "ex_trips =
     \<lparr>columns = [''trip_id'', ''service_id'', ''block_id''],
      rows = [[(''trip_id'', Str ''T1''), (''service_id'', Str ''S1''), (''block_id'', Str ''B1'')],
              [(''trip_id'', Str ''T2''), (''service_id'', Str ''S1''), (''block_id'', Str ''B1'')]]\<rparr>"

definition ex_stop_times :: DataFrame where
  "ex_stop_times =
     \<lparr>columns = [''trip_id'', ''arrival_time'', ''departure_time''],
      rows = [[(''trip_id'', Str ''T1''), (''arrival_time'', Str ''08:00:00''),
               (''departure_time'', Str ''08:00:00'')],
              [(''trip_id'', Str ''T1''), (''arrival_time'', Str ''08:30:00''),
               (''departure_time'', Str ''08:30:00'')],
              [(''trip_id'', Str ''T2''), (''arrival_time'', Str ''08:30:00''),
               (''departure_time'', Str ''08:30:00'')],
              [(''trip_id'', Str ''T2''), (''arrival_time'', Str ''09:00:00''),
               (''departure_time'', NaN)]]\<rparr>"

definition ex_feed :: gtfs_data where
  "ex_feed =
     [''calendar.txt'' \<mapsto> ex_calendar, ''calendar_dates.txt'' \<mapsto> ex_calendar_dates,
      ''trips.txt'' \<mapsto> ex_trips, ''stop_times.txt'' \<mapsto> ex_stop_times]"

text \<open>One trip without a block that leaves at 23:50:00 and arrives at 24:10:00.\<close>

definition overnight_trips :: DataFrame where
  "overnight_trips =
     \<lparr>columns = [''trip_id'', ''service_id''],
      rows = [[(''trip_id'', Str ''N1''), (''service_id'', Str ''S1'')]]\<rparr>"

definition overnight_stop_times :: DataFrame where
  "overnight_stop_times =
     \<lparr>columns = [''trip_id'', ''arrival_time'', ''departure_time''],
      rows = [[(''trip_id'', Str ''N1''), (''arrival_time'', Str ''23:50:00''),
               (''departure_time'', Str ''23:50:00'')],
              [(''trip_id'', Str ''N1''), (''arrival_time'', Str ''24:10:00''),
               (''departure_time'', Str ''24:10:00'')]]\<rparr>"

definition overnight_feed :: gtfs_data where
  "overnight_feed =
     [''calendar.txt'' \<mapsto> ex_calendar, ''trips.txt'' \<mapsto> overnight_trips,
      ''stop_times.txt'' \<mapsto> overnight_stop_times]"

section \<open>Auxiliary definitions\<close>

text \<open>
  The pieces of \<open>get_active_services_on_date\<close> by name: the conversion of one date
  column, the base set, the \<open>date_str\<close> column and the exception sets.
\<close>

definition normalize_column :: "DataFrame \<Rightarrow> string \<Rightarrow> DataFrame" where
  "normalize_column df col =
     (if \<not> is_datetime64_any_dtype df col
      then set_column df col (\<lambda>r. to_datetime (cell_at r col)) else df)"

definition base_of :: "int \<Rightarrow> DataFrame \<Rightarrow> cell set" where
  "base_of d calendar =
     (if \<not> df_empty calendar \<and>
         list_all (\<lambda>col. col \<in> set (columns calendar))
           [weekday_name d, ''start_date'', ''end_date'', ''service_id'']
      then set (map (\<lambda>r. cell_at r ''service_id'')
             (filter (\<lambda>r. cell_at r (weekday_name d) = Str ''1'' \<and>
                          ts_le (cell_at r ''start_date'') d \<and> ts_ge (cell_at r ''end_date'') d)
                (rows (normalize_column (normalize_column calendar ''start_date'') ''end_date''))))
      else {})"

definition with_date_str :: "DataFrame \<Rightarrow> DataFrame" where
  "with_date_str calendar_dates =
     (if is_datetime64_any_dtype calendar_dates ''date''
      then set_column calendar_dates ''date_str'' (\<lambda>r. dt_strftime (cell_at r ''date''))
      else set_column calendar_dates ''date_str'' (\<lambda>r. astype_str (cell_at r ''date'')))"

definition exceptions_of :: "string \<Rightarrow> int \<Rightarrow> DataFrame \<Rightarrow> cell set" where
  "exceptions_of kind d calendar_dates =
     (if \<not> df_empty calendar_dates \<and>
         list_all (\<lambda>col. col \<in> set (columns calendar_dates))
           [''date'', ''exception_type'', ''service_id'']
      then set (map (\<lambda>r. cell_at r ''service_id'')
             (filter (\<lambda>r. cell_at r ''date_str'' = Str (strftime_Ymd d) \<and>
                          cell_at r ''exception_type'' = Str kind)
                (rows (with_date_str calendar_dates))))
      else {})"

section \<open>Further feeds\<close>

text \<open>The example feed without \<open>trips.txt\<close>.\<close>

definition feed_without_trips :: gtfs_data where
  "feed_without_trips =
     [''calendar.txt'' \<mapsto> ex_calendar, ''calendar_dates.txt'' \<mapsto> ex_calendar_dates,
      ''stop_times.txt'' \<mapsto> ex_stop_times]"

text \<open>The example feed with a \<open>stop_times.txt\<close> that has no \<open>arrival_time\<close> column.\<close>

definition stop_times_without_arrival :: DataFrame where
  "stop_times_without_arrival =
     \<lparr>columns = [''trip_id'', ''departure_time''],
      rows = [[(''trip_id'', Str ''T1''), (''departure_time'', Str ''08:00:00'')]]\<rparr>"

definition feed_without_arrival_column :: gtfs_data where
  "feed_without_arrival_column =
     [''calendar.txt'' \<mapsto> ex_calendar, ''calendar_dates.txt'' \<mapsto> ex_calendar_dates,
      ''trips.txt'' \<mapsto> ex_trips, ''stop_times.txt'' \<mapsto> stop_times_without_arrival]"

text \<open>
  Three services, each added by an exception on one of the days 19723, 19724 and 19725
  (2024-01-01 to 2024-01-03), each with one trip of 6, 12 and 18 minutes; there is no
  \<open>calendar.txt\<close>.
\<close>

definition rounding_calendar_dates :: DataFrame where
  "rounding_calendar_dates =
     \<lparr>columns = [''service_id'', ''date'', ''exception_type''],
      rows = [[(''service_id'', Str ''A''), (''date'', Str ''20240101''), (''exception_type'', Str ''1'')],
              [(''service_id'', Str ''B''), (''date'', Str ''20240102''), (''exception_type'', Str ''1'')],
              [(''service_id'', Str ''C''), (''date'', Str ''20240103''), (''exception_type'', Str ''1'')]]\<rparr>"

definition rounding_trips :: DataFrame where
  "rounding_trips =
     \<lparr>columns = [''trip_id'', ''service_id''],
      rows = [[(''trip_id'', Str ''TA''), (''service_id'', Str ''A'')],
              [(''trip_id'', Str ''TB''), (''service_id'', Str ''B'')],
              [(''trip_id'', Str ''TC''), (''service_id'', Str ''C'')]]\<rparr>"

definition rounding_stop_times :: DataFrame where
  "rounding_stop_times =
     \<lparr>columns = [''trip_id'', ''arrival_time'', ''departure_time''],
      rows = [[(''trip_id'', Str ''TA''), (''arrival_time'', Str ''08:00:00''), (''departure_time'', Str ''08:00:00'')],
              [(''trip_id'', Str ''TA''), (''arrival_time'', Str ''08:06:00''), (''departure_time'', Str ''08:06:00'')],
              [(''trip_id'', Str ''TB''), (''arrival_time'', Str ''08:00:00''), (''departure_time'', Str ''08:00:00'')],
              [(''trip_id'', Str ''TB''), (''arrival_time'', Str ''08:12:00''), (''departure_time'', Str ''08:12:00'')],
              [(''trip_id'', Str ''TC''), (''arrival_time'', Str ''08:00:00''), (''departure_time'', Str ''08:00:00'')],
              [(''trip_id'', Str ''TC''), (''arrival_time'', Str ''08:18:00''), (''departure_time'', Str ''08:18:00'')]]\<rparr>"

definition rounding_feed :: gtfs_data where
  "rounding_feed =
     [''calendar_dates.txt'' \<mapsto> rounding_calendar_dates, ''trips.txt'' \<mapsto> rounding_trips,
      ''stop_times.txt'' \<mapsto> rounding_stop_times]"



text \<open>
  Joined rows after time parsing: trips \<open>T1\<close> and \<open>T2\<close> in block \<open>B1\<close> from 08:00:00
  to 09:00:00, and trip \<open>T3\<close> without a block from 10:00:00 to 11:00:00; and the same
  rows with no block at all.
\<close>

definition blocks_frame :: DataFrame where
  "blocks_frame =
     \<lparr>columns = [''trip_id'', ''block_id'', ''arrival_td'', ''departure_td''],
      rows = [[(''trip_id'', Str ''T1''), (''block_id'', Str ''B1''),
               (''arrival_td'', Td 30600), (''departure_td'', Td 28800)],
              [(''trip_id'', Str ''T2''), (''block_id'', Str ''B1''),
               (''arrival_td'', Td 32400), (''departure_td'', Td 30600)],
              [(''trip_id'', Str ''T3''), (''block_id'', NaN),
               (''arrival_td'', Td 39600), (''departure_td'', Td 36000)]]\<rparr>"

definition no_blocks_frame :: DataFrame where
  "no_blocks_frame =
     \<lparr>columns = [''trip_id'', ''block_id'', ''arrival_td'', ''departure_td''],
      rows = [[(''trip_id'', Str ''T1''), (''block_id'', NaN),
               (''arrival_td'', Td 30600), (''departure_td'', Td 28800)],
              [(''trip_id'', Str ''T2''), (''block_id'', NaN),
               (''arrival_td'', Td 32400), (''departure_td'', Td 30600)],
              [(''trip_id'', Str ''T3''), (''block_id'', NaN),
               (''arrival_td'', Td 39600), (''departure_td'', Td 36000)]]\<rparr>"

text \<open>The rows and the loop state of two frames agree outside the named columns.\<close>

definition same_except :: "string set \<Rightarrow> DataFrame \<Rightarrow> DataFrame \<Rightarrow> bool" where
  "same_except cols df df' \<longleftrightarrow>
     (\<forall>c. c \<notin> cols \<longrightarrow> (c \<in> set (columns df')) = (c \<in> set (columns df))) \<and>
     list_all2 (\<lambda>r r'. \<forall>c. c \<notin> cols \<longrightarrow> map_of r' c = map_of r c) (rows df) (rows df')"

text \<open>The stop times of the example after lines 133 and 134: the missing departure is filled.\<close>

definition ex_stop_times_filled :: DataFrame where
  "ex_stop_times_filled =
     \<lparr>columns = [''trip_id'', ''arrival_time'', ''departure_time''],
      rows = [[(''trip_id'', Str ''T1''), (''arrival_time'', Str ''08:00:00''),
               (''departure_time'', Str ''08:00:00'')],
              [(''trip_id'', Str ''T1''), (''arrival_time'', Str ''08:30:00''),
               (''departure_time'', Str ''08:30:00'')],
              [(''trip_id'', Str ''T2''), (''arrival_time'', Str ''08:30:00''),
               (''departure_time'', Str ''08:30:00'')],
              [(''trip_id'', Str ''T2''), (''arrival_time'', Str ''09:00:00''),
               (''departure_time'', Str ''09:00:00'')]]\<rparr>"

section \<open>The span hours as a list\<close>

text \<open>
  The hours that the loop bodies add to \<open>total_hours\<close>, collected in the order in which they
  are added instead of being summed: for one group, for the groups of a joined frame, for
  one date and for a range of dates. \<open>float_sum\<close> adds such a list to a total from left
  to right, as the repeated \<open>total_hours += \<dots>\<close> does.
\<close>

definition float_sum :: "real \<Rightarrow> py_error + real list \<Rightarrow> py_error + real" where
  "float_sum total_hours res =
     (case res of Inl e \<Rightarrow> Inl e | Inr hs \<Rightarrow> Inr (foldl float_add total_hours hs))"

definition append_hours :: "py_error + real list \<Rightarrow> py_error + real list \<Rightarrow> py_error + real list" where
  "append_hours first rest =
     (case first of
        Inl e \<Rightarrow> Inl e
      | Inr hs \<Rightarrow> (case rest of Inl e \<Rightarrow> Inl e | Inr hs' \<Rightarrow> Inr (hs @ hs')))"

definition span_hours_of_group :: "row list \<Rightarrow> py_error + real list" where
  "span_hours_of_group grp =
     (case (series_min (timedelta_values grp ''departure_td''),
            series_max (timedelta_values grp ''arrival_td'')) of
        (Some start_td, Some end_td) \<Rightarrow>
          (if start_td < end_td then
             (case timedelta_sub end_td start_td of
                Inl e \<Rightarrow> Inl e
              | Inr diff \<Rightarrow> Inr [hours_of_timedelta diff])
           else Inr [])
      | _ \<Rightarrow> Inr [])"

fun span_hours_of_groups :: "(string \<times> row list) list \<Rightarrow> py_error + real list" where
  "span_hours_of_groups [] = Inr []"
| "span_hours_of_groups ((key, grp) # groups) =
     append_hours (span_hours_of_group grp) (span_hours_of_groups groups)"

definition span_hours_of_frame :: "DataFrame \<Rightarrow> py_error + real list" where
  "span_hours_of_frame merged =
     (case apply_parse_gtfs_time merged ''arrival_time'' ''arrival_td'' of
        Inl e \<Rightarrow> Inl e
      | Inr merged \<Rightarrow>
     (case apply_parse_gtfs_time merged ''departure_time'' ''departure_td'' of
        Inl e \<Rightarrow> Inl e
      | Inr merged \<Rightarrow>
        (let merged = dropna merged [''arrival_td'', ''departure_td'']
         in if df_empty merged then Inr []
            else if ''block_id'' \<notin> set (columns merged) \<or>
                    list_all (\<lambda>r. isna (cell_at r ''block_id'')) (rows merged)
            then span_hours_of_groups (groupby merged ''trip_id'')
            else span_hours_of_groups (groupby merged ''block_id''))))"

definition span_hours_of_services :: "DataFrame \<Rightarrow> DataFrame \<Rightarrow> cell set \<Rightarrow> py_error + real list" where
  "span_hours_of_services trips stop_times active_services =
     (if active_services = {} then Inr []
      else if ''service_id'' \<notin> set (columns trips) then Inl (KeyError ''service_id'')
      else
        (let trips_on_date =
               trips\<lparr>rows := filter (\<lambda>r. cell_at r ''service_id'' \<in> active_services) (rows trips)\<rparr>
         in if df_empty trips_on_date then Inr []
            else if ''trip_id'' \<notin> set (columns trips_on_date) \<or>
                    ''trip_id'' \<notin> set (columns stop_times)
            then Inr []
            else
              (let merged = merge trips_on_date stop_times ''trip_id''
               in if df_empty merged then Inr [] else span_hours_of_frame merged)))"

text \<open>The span hours of a list of dates, each date resolved against the same two calendar frames.\<close>

fun span_hours_of_dates ::
    "DataFrame \<Rightarrow> DataFrame \<Rightarrow> DataFrame \<Rightarrow> DataFrame \<Rightarrow> int list \<Rightarrow> py_error + real list" where
  "span_hours_of_dates trips stop_times calendar calendar_dates [] = Inr []"
| "span_hours_of_dates trips stop_times calendar calendar_dates (d # ds) =
     append_hours
       (span_hours_of_services trips stop_times
          (fst (get_active_services_on_date d calendar calendar_dates)))
       (span_hours_of_dates trips stop_times calendar calendar_dates ds)"

text \<open>
  The span hours of a feed over a range; no hours where the function returns \<open>0.0\<close>
  before the loop.
\<close>

definition span_hours :: "gtfs_data \<Rightarrow> int \<Rightarrow> int \<Rightarrow> py_error + real list" where
  "span_hours gtfs_data start_date_dt end_date_dt =
     (case check_required_files required_files (default_calendar_dates gtfs_data) of
        return_zero \<Rightarrow> Inr []
      | proceed gtfs_data \<Rightarrow>
     (case getitem gtfs_data ''calendar.txt'' of Inl e \<Rightarrow> Inl e | Inr calendar \<Rightarrow>
     (case getitem gtfs_data ''calendar_dates.txt'' of Inl e \<Rightarrow> Inl e | Inr calendar_dates \<Rightarrow>
     (case getitem gtfs_data ''trips.txt'' of Inl e \<Rightarrow> Inl e | Inr trips \<Rightarrow>
     (case getitem gtfs_data ''stop_times.txt'' of Inl e \<Rightarrow> Inl e | Inr stop_times \<Rightarrow>
     (case fill_stop_times stop_times of
        Inl e \<Rightarrow> Inl e
      | Inr return_zero \<Rightarrow> Inr []
      | Inr (proceed stop_times) \<Rightarrow>
          span_hours_of_dates trips stop_times (normalize_calendar calendar) calendar_dates
            (date_range start_date_dt end_date_dt)))))))"

text \<open>The calendar_dates frame once \<open>get_active_services_on_date\<close> has been applied to it.\<close>

definition settled_dates :: "DataFrame \<Rightarrow> DataFrame" where
  "settled_dates calendar_dates =
     (if \<not> df_empty calendar_dates \<and>
         list_all (\<lambda>col. col \<in> set (columns calendar_dates))
           [''date'', ''exception_type'', ''service_id'']
      then with_date_str calendar_dates
      else calendar_dates)"

text \<open>Both date columns of a calendar frame hold timestamps.\<close>

definition dates_normalized :: "DataFrame \<Rightarrow> bool" where
  "dates_normalized calendar \<longleftrightarrow>
     is_datetime64_any_dtype calendar ''start_date'' \<and>
     is_datetime64_any_dtype calendar ''end_date''"

section \<open>Properties\<close>

subsection \<open>Rules for evaluating the definitions on concrete inputs\<close>

lemmas eval_cong =
  let_weak_cong if_weak_cong prod.case_cong_weak option.case_cong_weak
  list.case_cong_weak sum.case_cong_weak cell.case_cong_weak flow.case_cong_weak

lemmas int_eval = py_int_def strip_def is_space_def is_digit_def digit_val_def

lemmas td_eval = timedelta_def timedelta_in_range_def timedelta_sub_def

lemmas parse_eval = parse_gtfs_time_def isna_def int_eval td_eval

lemmas fl_eval =
  round_double_def round_half_even_def float_exponent_def pow2_def bit_length.simps
  float_add_def hours_of_timedelta_def

lemmas date_eval =
  civil_from_days_def days_from_civil_def is_leap_def days_in_month_def weekday_name_def
  digit_char_def strftime_Ymd_def digits_to_int_def to_datetime_Ymd_def

lemmas df_eval =
  df_empty_def cell_at_def set_column_def empty_frame_def is_datetime64_any_dtype_def
  to_datetime_def ts_le_def ts_ge_def astype_str_def dt_strftime_def fillna_def

lemmas agg_eval =
  merge_def timedelta_cell_def apply_parse_gtfs_time_def dropna_def group_keys_def groupby_def
  timedelta_values_def series_min_def series_max_def add_span_def sum_group_spans_def
  aggregate_def

lemmas top_eval =
  missing_or_empty_def default_calendar_dates_def calendar_columns_def required_files_def
  getitem_def normalize_calendar_def fill_stop_times_def process_date_def date_range_def
  calculate_service_hours_from_url_def get_active_services_on_date_def

lemmas all_eval = top_eval agg_eval df_eval date_eval parse_eval fl_eval Let_def

lemmas ex_defs =
  ex_calendar_def ex_calendar_dates_def ex_trips_def ex_stop_times_def ex_feed_def

subsection \<open>The time parser\<close>

lemma parse_three_fields:
  assumes "map py_int (str_split CHR '':'' t) = [Some h, Some m, Some s]"
  shows "parse_gtfs_time (Str t) =
           (if timedelta_in_range (3600 * h + 60 * m + s)
            then Inr (Some (3600 * h + 60 * m + s))
            else Inl OverflowError)"
  using assms by (simp add: parse_gtfs_time_def isna_def timedelta_def Let_def)

lemma parse_malformed:
  assumes "\<not> (\<exists>h m s. map py_int (str_split CHR '':'' t) = [Some h, Some m, Some s])"
  shows "parse_gtfs_time (Str t) = Inr None"
  using assms
  by (auto simp add: parse_gtfs_time_def isna_def split: list.splits option.splits)

lemma parse_missing: "isna t \<Longrightarrow> parse_gtfs_time t = Inr None"
  by (simp add: parse_gtfs_time_def)

lemma parse_wrong_field_count:
  "length (str_split CHR '':'' t) \<noteq> 3 \<Longrightarrow> parse_gtfs_time (Str t) = Inr None"
  by (rule parse_malformed) (auto dest!: arg_cong [where f = length])

lemma parse_non_integer_field:
  assumes "f \<in> set (str_split CHR '':'' t)" and "py_int f = None"
  shows "parse_gtfs_time (Str t) = Inr None"
proof (rule parse_malformed)
  from assms have "None \<in> set (map py_int (str_split CHR '':'' t))"
    by force
  then show "\<not> (\<exists>h m s. map py_int (str_split CHR '':'' t) = [Some h, Some m, Some s])"
    by auto
qed

lemma parse_empty_string: "parse_gtfs_time (Str []) = Inr None"
  by (simp add: parse_eval)

lemma parse_only_overflows: "parse_gtfs_time (Str t) = Inl e \<Longrightarrow> e = OverflowError"
  by (auto simp add: parse_gtfs_time_def isna_def timedelta_def Let_def
      split: list.splits option.splits if_splits)

text \<open>
  Claim C5. An hour field of 24 or more is kept as it is: the parsed duration is
  \<open>3600 * h + 60 * m + s\<close> seconds, not reduced modulo one day. A trip that leaves at
  23:50:00 and arrives at 24:10:00 has a span of 1200 seconds, and a feed with this one
  trip has a total of \<open>1200 / 3600.0\<close> hours, the double next to one third, which is
  positive.
\<close>

theorem overnight_span_is_positive:
  "(\<forall>t h m s.
      map py_int (str_split CHR '':'' t) = [Some h, Some m, Some s] \<and> 24 \<le> h \<and>
      timedelta_in_range (3600 * h + 60 * m + s) \<longrightarrow>
      parse_gtfs_time (Str t) = Inr (Some (3600 * h + 60 * m + s))) \<and>
   parse_gtfs_time (Str ''23:50:00'') = Inr (Some 85800) \<and>
   parse_gtfs_time (Str ''24:10:00'') = Inr (Some 87000) \<and>
   timedelta_sub 87000 85800 = Inr 1200 \<and>
   calculate_service_hours_from_url overnight_feed 19724 19724 = Inr (hours_of_timedelta 1200) \<and>
   hours_of_timedelta 1200 = round_double (1 / 3) \<and>
   0 < hours_of_timedelta 1200"
proof (intro conjI allI impI)
  fix t h m s
  assume "map py_int (str_split CHR '':'' t) = [Some h, Some m, Some s] \<and> 24 \<le> h \<and>
      timedelta_in_range (3600 * h + 60 * m + s)"
  then show "parse_gtfs_time (Str t) = Inr (Some (3600 * h + 60 * m + s))"
    by (simp add: parse_three_fields)
next
  show "parse_gtfs_time (Str ''23:50:00'') = Inr (Some 85800)"
    by (simp add: parse_eval)
next
  show "parse_gtfs_time (Str ''24:10:00'') = Inr (Some 87000)"
    by (simp add: parse_eval)
next
  show "timedelta_sub 87000 85800 = Inr 1200"
    by (simp add: td_eval)
next
  have "calculate_service_hours_from_url overnight_feed 19724 19724 = Inr (6004799503160661 / 18014398509481984)"
    by (simp add: all_eval ex_defs overnight_trips_def overnight_stop_times_def overnight_feed_def
        cong: eval_cong)
  moreover have "hours_of_timedelta 1200 = 6004799503160661 / 18014398509481984"
    by (simp add: fl_eval)
  ultimately show "calculate_service_hours_from_url overnight_feed 19724 19724 = Inr (hours_of_timedelta 1200)"
    by simp
next
  show "hours_of_timedelta 1200 = round_double (1 / 3)"
    by (simp add: hours_of_timedelta_def)
next
  show "0 < hours_of_timedelta 1200"
    by (simp add: fl_eval)
qed

theorem overnight_span_is_positive_witness:
  "map py_int (str_split CHR '':'' ''24:10:00'') = [Some 24, Some 10, Some 0] \<and>
   timedelta_in_range (3600 * 24 + 60 * 10 + 0) \<and>
   parse_gtfs_time (Str ''24:10:00'') = Inr (Some (3600 * 24 + 60 * 10 + 0)) \<and>
   calculate_service_hours_from_url overnight_feed 19724 19724 = Inr (hours_of_timedelta 1200)"
proof -
  have fields: "map py_int (str_split CHR '':'' ''24:10:00'') = [Some 24, Some 10, Some 0]"
    by (simp add: int_eval)
  have range: "timedelta_in_range (3600 * 24 + 60 * 10 + 0)"
    by (simp add: td_eval)
  have total: "calculate_service_hours_from_url overnight_feed 19724 19724 = Inr (hours_of_timedelta 1200)"
    using overnight_span_is_positive by blast
  have "parse_gtfs_time (Str ''24:10:00'') = Inr (Some (3600 * 24 + 60 * 10 + 0))"
    using overnight_span_is_positive [THEN conjunct1, rule_format, of "''24:10:00''" 24 10 0]
      fields range
    by simp
  with fields range total show ?thesis
    by blast
qed

lemma missing_time_gives_NaT: "timedelta_cell (Inr None) = NaT"
  by (simp add: timedelta_cell_def)

lemma rows_with_missing_times_are_dropped:
  assumes "r \<in> set (rows (dropna df [''arrival_td'', ''departure_td'']))"
  shows "\<not> isna (cell_at r ''arrival_td'') \<and> \<not> isna (cell_at r ''departure_td'')"
  using assms by (simp add: dropna_def)

text \<open>
  Claim C6. The parser returns the missing result for a missing value, for an empty string,
  for a field count other than three and for a field that \<open>int\<close> rejects, and rows
  with a missing time are dropped before the groups are formed (the lemmas above). But the
  parser does raise: three integer fields whose duration is beyond the range of
  \<open>timedelta\<close> end in an \<open>OverflowError\<close>, which \<open>except ValueError\<close> does not catch.
\<close>

theorem parse_gtfs_time_raises_overflow:
  "parse_gtfs_time (Str ''1000000000000:00:00'') = Inl OverflowError"
  by (simp add: parse_eval)




subsection \<open>The service calendar\<close>

lemma cell_at_update:
  "cell_at (AList.update col v r) c = (if c = col then v else cell_at r c)"
  by (simp add: cell_at_def update_conv')





lemma weekday_name_cases:
  "weekday_name d \<in> set [''monday'', ''tuesday'', ''wednesday'', ''thursday'', ''friday'', ''saturday'', ''sunday'']"
proof -
  have "nat ((d + 3) mod 7) < 7" by simp
  then show ?thesis
    unfolding weekday_name_def by (intro nth_mem) simp
qed

lemma weekday_name_not_date [simp]:
  "weekday_name d \<noteq> ''start_date''" "weekday_name d \<noteq> ''end_date''"
  using weekday_name_cases [of d] by auto





lemma normalize_column_columns:
  "col \<in> set (columns df) \<Longrightarrow> columns (normalize_column df col) = columns df"
  by (simp add: normalize_column_def set_column_def)

lemma get_active_services_on_date_fst:
  "fst (get_active_services_on_date d calendar calendar_dates) =
     (base_of d calendar \<union> exceptions_of ''1'' d calendar_dates) - exceptions_of ''2'' d calendar_dates"
  by (simp add: get_active_services_on_date_def base_of_def exceptions_of_def with_date_str_def
      normalize_column_def Let_def)












subsection \<open>The required files\<close>

lemma missing_default [simp]:
  "missing_or_empty (default_calendar_dates g) name = missing_or_empty g name"
  by (auto simp add: missing_or_empty_def default_calendar_dates_def empty_frame_def df_empty_def)

lemma returns_zero_when_required_missing:
  assumes "missing_or_empty g ''trips.txt'' \<or> missing_or_empty g ''stop_times.txt'' \<or>
           (missing_or_empty g ''calendar.txt'' \<and> missing_or_empty g ''calendar_dates.txt'')"
  shows "check_required_files required_files (default_calendar_dates g) = return_zero"
proof -
  have upd: "missing_or_empty (h(''calendar.txt'' \<mapsto> df)) name = missing_or_empty h name"
    if "name \<noteq> ''calendar.txt''" for h df name
    using that by (simp add: missing_or_empty_def)
  from assms show ?thesis
    by (auto simp add: required_files_def upd)
qed





subsection \<open>Totals are not negative; the loop over the dates\<close>
















lemma accumulate_append:
  "accumulate trips stop_times (xs @ ys) st =
     (case accumulate trips stop_times xs st of
        Inl e \<Rightarrow> Inl e
      | Inr st' \<Rightarrow> accumulate trips stop_times ys st')"
  by (induction xs arbitrary: st) (auto split: sum.splits)

lemma date_range_split:
  "a \<le> b \<Longrightarrow> b < c \<Longrightarrow> date_range a c = date_range a b @ date_range (b + 1) c"
  unfolding date_range_def by (rule upto_split2) simp_all

lemma date_range_empty: "b < a \<Longrightarrow> date_range a b = []"
  by (simp add: date_range_def)





text \<open>
  Claim C1, as the code has it. When \<open>trips.txt\<close> or \<open>stop_times.txt\<close> is absent or
  empty, or \<open>calendar.txt\<close> is absent or empty and there are no exceptions in
  \<open>calendar_dates.txt\<close>, the function returns \<open>0.0\<close>; it raises nothing.
\<close>

theorem missing_required_table_returns_zero:
  "missing_or_empty gtfs_data ''trips.txt'' \<or> missing_or_empty gtfs_data ''stop_times.txt'' \<or>
   (missing_or_empty gtfs_data ''calendar.txt'' \<and> missing_or_empty gtfs_data ''calendar_dates.txt'')
   \<longrightarrow> calculate_service_hours_from_url gtfs_data a b = Inr 0"
  by (simp add: calculate_service_hours_from_url_def returns_zero_when_required_missing)

theorem missing_required_table_returns_zero_witness:
  "missing_or_empty feed_without_trips ''trips.txt'' \<and>
   calculate_service_hours_from_url feed_without_trips 19723 19727 = Inr 0"
proof -
  have "missing_or_empty feed_without_trips ''trips.txt''"
    by (simp add: missing_or_empty_def feed_without_trips_def)
  with missing_required_table_returns_zero [of feed_without_trips 19723 19727] show ?thesis
    by simp
qed

theorem missing_trips_gives_a_number:
  "feed_without_trips ''trips.txt'' = None \<and>
   calculate_service_hours_from_url feed_without_trips 19723 19727 = Inr 0"
  by (simp add: all_eval ex_defs feed_without_trips_def cong: eval_cong)



lemma accumulate_over_split_range:
  assumes "a \<le> b" and "b < c"
  shows "accumulate trips stop_times (date_range a c) st =
     (case accumulate trips stop_times (date_range a b) st of
        Inl e \<Rightarrow> Inl e
      | Inr st' \<Rightarrow> accumulate trips stop_times (date_range (b + 1) c) st')"
  by (simp add: date_range_split [OF assms] accumulate_append)

lemmas rounding_defs =
  rounding_calendar_dates_def rounding_trips_def rounding_stop_times_def rounding_feed_def

text \<open>
  With 6, 12 and 18 minutes on three consecutive days the total of the whole range is
  \<open>0.6000000000000001\<close>, and the totals of the first day and of the other two are
  \<open>0.1\<close> and \<open>0.5\<close>, whose floating-point sum is \<open>0.6\<close>.
\<close>

theorem range_total_differs_from_sum_of_parts:
  "calculate_service_hours_from_url rounding_feed 19723 19725 = Inr (5404319552844596 / 9007199254740992) \<and>
   calculate_service_hours_from_url rounding_feed 19723 19723 = Inr (3602879701896397 / 36028797018963968) \<and>
   calculate_service_hours_from_url rounding_feed 19724 19725 = Inr (1 / 2) \<and>
   float_add (3602879701896397 / 36028797018963968) (1 / 2) = 5404319552844595 / 9007199254740992 \<and>
   (5404319552844596 / 9007199254740992 :: real) \<noteq> 5404319552844595 / 9007199254740992"
proof (intro conjI)
  show "calculate_service_hours_from_url rounding_feed 19723 19725 = Inr (5404319552844596 / 9007199254740992)"
    by (simp add: all_eval rounding_defs cong: eval_cong)
  show "calculate_service_hours_from_url rounding_feed 19723 19723 = Inr (3602879701896397 / 36028797018963968)"
    by (simp add: all_eval rounding_defs cong: eval_cong)
  show "calculate_service_hours_from_url rounding_feed 19724 19725 = Inr (1 / 2)"
    by (simp add: all_eval rounding_defs cong: eval_cong)
  show "float_add (3602879701896397 / 36028797018963968) (1 / 2) = 5404319552844595 / 9007199254740992"
    by (simp add: fl_eval)
  show "(5404319552844596 / 9007199254740992 :: real) \<noteq> 5404319552844595 / 9007199254740992"
    by simp
qed

subsection \<open>Grouping by trip or by block\<close>

lemma group_keys_filter_notna:
  "group_keys (filter (\<lambda>r. \<not> isna (cell_at r col)) rs) col = group_keys rs col"
proof -
  have "concat (map (\<lambda>r. case cell_at r col of Str k \<Rightarrow> [k] | _ \<Rightarrow> [])
            (filter (\<lambda>r. \<not> isna (cell_at r col)) rs)) =
        concat (map (\<lambda>r. case cell_at r col of Str k \<Rightarrow> [k] | _ \<Rightarrow> []) rs)"
    by (induction rs) (auto simp add: isna_def)
  then show ?thesis by (simp add: group_keys_def)
qed

lemma group_rows_filter_notna:
  "filter (\<lambda>r. cell_at r col = Str k) (filter (\<lambda>r. \<not> isna (cell_at r col)) rs) =
   filter (\<lambda>r. cell_at r col = Str k) rs"
  by (induction rs) (auto simp add: isna_def)

lemma groupby_filter_notna:
  "groupby (df\<lparr>rows := filter (\<lambda>r. \<not> isna (cell_at r col)) (rows df)\<rparr>) col = groupby df col"
  by (simp add: groupby_def group_keys_filter_notna group_rows_filter_notna del: filter_filter)

lemma set_group_keys:
  "set (group_keys rs col) = {k. \<exists>r \<in> set rs. cell_at r col = Str k}"
  by (auto simp add: group_keys_def split: cell.splits)

lemma distinct_group_keys: "distinct (group_keys rs col)" "sorted (group_keys rs col)"
  by (simp_all add: group_keys_def)

lemma groupby_keys: "map fst (groupby df col) = group_keys (rows df) col"
  by (simp add: groupby_def o_def)

lemma groupby_group:
  "(k, grp) \<in> set (groupby df col) \<Longrightarrow>
   grp = filter (\<lambda>r. cell_at r col = Str k) (rows df) \<and> grp \<noteq> []"
  by (auto simp add: groupby_def set_group_keys filter_empty_conv)

lemma sum_group_spans_by_trip:
  "''block_id'' \<notin> set (columns merged) \<or> (\<forall>r \<in> set (rows merged). isna (cell_at r ''block_id'')) \<Longrightarrow>
   sum_group_spans merged total_hours = add_spans (groupby merged ''trip_id'') total_hours"
  by (auto simp add: sum_group_spans_def list_all_iff)

lemma sum_group_spans_by_block:
  assumes "''block_id'' \<in> set (columns merged)"
    and "\<exists>r \<in> set (rows merged). \<not> isna (cell_at r ''block_id'')"
  shows "sum_group_spans merged total_hours = add_spans (groupby merged ''block_id'') total_hours"
  using assms by (auto simp add: sum_group_spans_def list_all_iff)

lemma sum_group_spans_without_null_blocks:
  assumes "''block_id'' \<in> set (columns merged)"
    and "\<exists>r \<in> set (rows merged). \<not> isna (cell_at r ''block_id'')"
  shows "sum_group_spans (merged\<lparr>rows := filter (\<lambda>r. \<not> isna (cell_at r ''block_id'')) (rows merged)\<rparr>)
           total_hours = sum_group_spans merged total_hours"
proof -
  let ?m = "merged\<lparr>rows := filter (\<lambda>r. \<not> isna (cell_at r ''block_id'')) (rows merged)\<rparr>"
  from assms have "''block_id'' \<in> set (columns ?m)"
    and "\<exists>r \<in> set (rows ?m). \<not> isna (cell_at r ''block_id'')"
    by auto
  then have "sum_group_spans ?m total_hours = add_spans (groupby ?m ''block_id'') total_hours"
    by (rule sum_group_spans_by_block)
  also have "\<dots> = add_spans (groupby merged ''block_id'') total_hours"
    by (simp only: groupby_filter_notna)
  also have "\<dots> = sum_group_spans merged total_hours"
    using assms by (rule sum_group_spans_by_block [symmetric])
  finally show ?thesis .
qed

lemma eval_blocks:
  "add_spans (groupby blocks_frame ''block_id'') 0 = Inr 1"
  "add_spans (groupby no_blocks_frame ''trip_id'') 0 = Inr 2"
  "map fst (groupby no_blocks_frame ''trip_id'') = [''T1'', ''T2'', ''T3'']"
  "map fst (groupby blocks_frame ''block_id'') = [''B1'']"
  by (simp_all add: blocks_frame_def no_blocks_frame_def agg_eval df_eval td_eval fl_eval Let_def
      cong: eval_cong)

text \<open>
  Claim C4. On the joined rows that are left after time parsing: when the frame has no
  \<open>block_id\<close> column or every block identifier is missing, the groups are the trips,
  one group for each trip identifier; otherwise the groups are the blocks, and the rows
  without a block identifier are in no group, so that the result is the same without
  them. The keys of the groups are distinct, they are the identifiers found in the
  rows, and a group holds exactly the rows with its key.
\<close>

theorem groups_are_trips_or_blocks:
  "(''block_id'' \<notin> set (columns merged) \<or>
    (\<forall>r \<in> set (rows merged). isna (cell_at r ''block_id'')) \<longrightarrow>
      sum_group_spans merged total_hours = add_spans (groupby merged ''trip_id'') total_hours) \<and>
   (''block_id'' \<in> set (columns merged) \<and>
    (\<exists>r \<in> set (rows merged). \<not> isna (cell_at r ''block_id'')) \<longrightarrow>
      sum_group_spans merged total_hours = add_spans (groupby merged ''block_id'') total_hours \<and>
      sum_group_spans
        (merged\<lparr>rows := filter (\<lambda>r. \<not> isna (cell_at r ''block_id'')) (rows merged)\<rparr>)
        total_hours = sum_group_spans merged total_hours) \<and>
   distinct (map fst (groupby merged col)) \<and>
   set (map fst (groupby merged col)) = {k. \<exists>r \<in> set (rows merged). cell_at r col = Str k} \<and>
   (\<forall>(k, grp) \<in> set (groupby merged col).
      grp = filter (\<lambda>r. cell_at r col = Str k) (rows merged))"
proof (intro conjI impI)
  assume "''block_id'' \<notin> set (columns merged) \<or>
    (\<forall>r \<in> set (rows merged). isna (cell_at r ''block_id''))"
  then show "sum_group_spans merged total_hours = add_spans (groupby merged ''trip_id'') total_hours"
    by (rule sum_group_spans_by_trip)
next
  assume a: "''block_id'' \<in> set (columns merged) \<and>
    (\<exists>r \<in> set (rows merged). \<not> isna (cell_at r ''block_id''))"
  then show "sum_group_spans merged total_hours = add_spans (groupby merged ''block_id'') total_hours"
    by (simp add: sum_group_spans_by_block)
  from a show "sum_group_spans
        (merged\<lparr>rows := filter (\<lambda>r. \<not> isna (cell_at r ''block_id'')) (rows merged)\<rparr>)
        total_hours = sum_group_spans merged total_hours"
    by (simp add: sum_group_spans_without_null_blocks)
next
  show "distinct (map fst (groupby merged col))"
    by (simp add: groupby_keys distinct_group_keys)
next
  show "set (map fst (groupby merged col)) = {k. \<exists>r \<in> set (rows merged). cell_at r col = Str k}"
    by (simp only: groupby_keys set_group_keys)
next
  show "\<forall>(k, grp) \<in> set (groupby merged col).
      grp = filter (\<lambda>r. cell_at r col = Str k) (rows merged)"
    using groupby_group [of _ _ merged col] by auto
qed

theorem groups_are_trips_or_blocks_witness:
  "sum_group_spans no_blocks_frame 0 = Inr 2 \<and>
   map fst (groupby no_blocks_frame ''trip_id'') = [''T1'', ''T2'', ''T3''] \<and>
   sum_group_spans blocks_frame 0 = Inr 1 \<and>
   map fst (groupby blocks_frame ''block_id'') = [''B1''] \<and>
   sum_group_spans
     (blocks_frame\<lparr>rows := filter (\<lambda>r. \<not> isna (cell_at r ''block_id'')) (rows blocks_frame)\<rparr>) 0 = Inr 1"
proof -
  have no_blocks: "\<forall>r \<in> set (rows no_blocks_frame). isna (cell_at r ''block_id'')"
    by (simp add: no_blocks_frame_def cell_at_def isna_def)
  have blocks: "''block_id'' \<in> set (columns blocks_frame) \<and>
      (\<exists>r \<in> set (rows blocks_frame). \<not> isna (cell_at r ''block_id''))"
    by (simp add: blocks_frame_def cell_at_def isna_def)
  have "sum_group_spans no_blocks_frame 0 = Inr 2"
    using groups_are_trips_or_blocks [of no_blocks_frame 0 "''trip_id''"] no_blocks
    by (simp add: eval_blocks)
  moreover have "sum_group_spans blocks_frame 0 = Inr 1 \<and>
      sum_group_spans
        (blocks_frame\<lparr>rows := filter (\<lambda>r. \<not> isna (cell_at r ''block_id'')) (rows blocks_frame)\<rparr>) 0 = Inr 1"
    using groups_are_trips_or_blocks [of blocks_frame 0 "''block_id''"] blocks
    by (simp add: eval_blocks)
  ultimately show ?thesis
    by (simp add: eval_blocks)
qed

subsection \<open>The empty range\<close>

lemma required_files_proceed:
  assumes "check_required_files required_files g = proceed g'"
  shows "g' ''trips.txt'' = g ''trips.txt'' \<and> g' ''stop_times.txt'' = g ''stop_times.txt'' \<and>
         g' ''calendar_dates.txt'' = g ''calendar_dates.txt'' \<and>
         g' ''calendar.txt'' \<noteq> None \<and> g ''trips.txt'' \<noteq> None \<and> g ''stop_times.txt'' \<noteq> None"
  using assms
  by (auto simp add: required_files_def missing_or_empty_def split: if_splits option.splits)

lemma default_calendar_dates_present:
  "default_calendar_dates g ''calendar_dates.txt'' \<noteq> None"
  by (auto simp add: default_calendar_dates_def)

lemma default_calendar_dates_other:
  "name \<noteq> ''calendar_dates.txt'' \<Longrightarrow> default_calendar_dates g name = g name"
  by (auto simp add: default_calendar_dates_def)

lemma fill_stop_times_proceeds:
  assumes "''arrival_time'' \<in> set (columns stop_times)" and "''departure_time'' \<in> set (columns stop_times)"
  shows "\<exists>st'. fill_stop_times stop_times = Inr (proceed st')"
  using assms by (simp add: fill_stop_times_def Let_def set_column_def)

lemma empty_range_returns_zero:
  assumes "b < a"
    and "\<forall>st. gtfs_data ''stop_times.txt'' = Some st \<longrightarrow>
           ''arrival_time'' \<in> set (columns st) \<and> ''departure_time'' \<in> set (columns st)"
  shows "calculate_service_hours_from_url gtfs_data a b = Inr 0"
proof (cases "check_required_files required_files (default_calendar_dates gtfs_data)")
  case return_zero
  then show ?thesis by (simp add: calculate_service_hours_from_url_def)
next
  case (proceed g')
  from required_files_proceed [OF proceed] default_calendar_dates_present [of gtfs_data]
  obtain calendar calendar_dates trips stop_times where tabs:
    "g' ''calendar.txt'' = Some calendar" "g' ''calendar_dates.txt'' = Some calendar_dates"
    "g' ''trips.txt'' = Some trips" "g' ''stop_times.txt'' = Some stop_times"
    "gtfs_data ''stop_times.txt'' = Some stop_times"
    by (auto simp add: default_calendar_dates_other)
  from assms(2) tabs(5) have "''arrival_time'' \<in> set (columns stop_times)"
    "''departure_time'' \<in> set (columns stop_times)"
    by simp_all
  from fill_stop_times_proceeds [OF this] obtain st' where
    "fill_stop_times stop_times = Inr (proceed st')" ..
  with proceed tabs assms(1) show ?thesis
    by (simp add: calculate_service_hours_from_url_def getitem_def date_range_empty)
qed

text \<open>
  Claim C9. With the start after the end there is no date to process, and the function
  returns \<open>0.0\<close> whenever \<open>stop_times\<close> has its two time columns (lemma
  \<open>empty_range_returns_zero\<close>). A \<open>stop_times\<close> without \<open>arrival_time\<close> is read at line
  133, before the test of line 135 that would return \<open>0.0\<close>, and the function ends
  in a \<open>KeyError\<close>.
\<close>

theorem empty_range_raises_without_arrival_column:
  "(19723::int) < 19727 \<and>
   calculate_service_hours_from_url feed_without_arrival_column 19727 19723 = Inl (KeyError ''arrival_time'')"
  by (simp add: all_eval ex_defs stop_times_without_arrival_def feed_without_arrival_column_def
      cong: eval_cong)

subsection \<open>What the functions change in the tables\<close>

lemma same_except_refl: "same_except cols df df"
  by (simp add: same_except_def list_all2_same)

lemma same_except_trans:
  assumes "same_except cols a b" and "same_except cols b c"
  shows "same_except cols a c"
proof -
  from assms have ab: "list_all2 (\<lambda>r r'. \<forall>c. c \<notin> cols \<longrightarrow> map_of r' c = map_of r c) (rows a) (rows b)"
    and bc: "list_all2 (\<lambda>r r'. \<forall>c. c \<notin> cols \<longrightarrow> map_of r' c = map_of r c) (rows b) (rows c)"
    by (simp_all add: same_except_def)
  have "list_all2 (\<lambda>r r'. \<forall>c. c \<notin> cols \<longrightarrow> map_of r' c = map_of r c) (rows a) (rows c)"
    by (rule list_all2_trans [OF _ ab bc]) simp
  with assms show ?thesis
    by (simp add: same_except_def)
qed

lemma same_except_set_column:
  "col \<in> cols \<Longrightarrow> same_except cols df (set_column df col f)"
  by (auto simp add: same_except_def set_column_def list_all2_map2 list_all2_same update_conv')

lemma same_except_normalize_column:
  "col \<in> cols \<Longrightarrow> same_except cols df (normalize_column df col)"
  by (simp add: normalize_column_def same_except_set_column same_except_refl)

lemma same_except_with_date_str:
  "same_except {''date_str''} df (with_date_str df)"
  by (simp add: with_date_str_def same_except_set_column)

lemma get_active_services_on_date_snd:
  "snd (get_active_services_on_date d calendar calendar_dates) =
     ((if \<not> df_empty calendar \<and>
          list_all (\<lambda>col. col \<in> set (columns calendar))
            [weekday_name d, ''start_date'', ''end_date'', ''service_id'']
       then normalize_column (normalize_column calendar ''start_date'') ''end_date''
       else calendar),
      (if \<not> df_empty calendar_dates \<and>
          list_all (\<lambda>col. col \<in> set (columns calendar_dates))
            [''date'', ''exception_type'', ''service_id'']
       then with_date_str calendar_dates
       else calendar_dates))"
  by (simp add: get_active_services_on_date_def with_date_str_def normalize_column_def Let_def)

lemma get_active_services_on_date_frames:
  assumes "get_active_services_on_date d calendar calendar_dates = (services, calendar', calendar_dates')"
  shows "same_except {''start_date'', ''end_date''} calendar calendar'"
    and "same_except {''date_str''} calendar_dates calendar_dates'"
proof -
  from assms have eq: "snd (get_active_services_on_date d calendar calendar_dates) = (calendar', calendar_dates')"
    by simp
  have "same_except {''start_date'', ''end_date''} calendar
          (normalize_column (normalize_column calendar ''start_date'') ''end_date'')"
    by (rule same_except_trans [where b = "normalize_column calendar ''start_date''"])
       (simp_all add: same_except_normalize_column)
  with eq show "same_except {''start_date'', ''end_date''} calendar calendar'"
    by (auto simp add: get_active_services_on_date_snd same_except_refl split: if_splits)
  from eq show "same_except {''date_str''} calendar_dates calendar_dates'"
    by (auto simp add: get_active_services_on_date_snd same_except_refl same_except_with_date_str
        split: if_splits)
qed

lemma same_except_if_set_column:
  "same_except cols a b \<Longrightarrow> col \<in> cols \<Longrightarrow>
   same_except cols a (if P then set_column b col f else b)"
  by (auto intro: same_except_trans same_except_set_column)

lemma same_except_normalize_calendar:
  "same_except {''start_date'', ''end_date''} calendar (normalize_calendar calendar)"
  unfolding normalize_calendar_def Let_def
  by (intro same_except_if_set_column same_except_refl) simp_all

lemma same_except_fill_stop_times:
  assumes "fill_stop_times stop_times = Inr (proceed stop_times')"
  shows "same_except {''arrival_time'', ''departure_time''} stop_times stop_times'"
proof -
  define filled where "filled = set_column stop_times ''arrival_time''
              (\<lambda>r. fillna (cell_at r ''arrival_time'') (cell_at r ''departure_time''))"
  from assms have eq: "stop_times' = set_column filled ''departure_time''
              (\<lambda>r. fillna (cell_at r ''departure_time'') (cell_at r ''arrival_time''))"
    by (simp add: fill_stop_times_def Let_def filled_def split: if_splits)
  have 1: "same_except {''arrival_time'', ''departure_time''} stop_times filled"
    unfolding filled_def by (rule same_except_set_column) simp
  have 2: "same_except {''arrival_time'', ''departure_time''} filled stop_times'"
    unfolding eq by (rule same_except_set_column) simp
  from 1 2 show ?thesis by (rule same_except_trans)
qed

lemma process_date_frames:
  assumes "process_date trips stop_times d (calendar, calendar_dates, total_hours) =
             Inr (calendar', calendar_dates', total_hours')"
  shows "same_except {''start_date'', ''end_date''} calendar calendar' \<and>
         same_except {''date_str''} calendar_dates calendar_dates'"
proof -
  obtain services c1 cd1 where g: "get_active_services_on_date d calendar calendar_dates = (services, c1, cd1)"
    by (cases "get_active_services_on_date d calendar calendar_dates") auto
  with assms have "calendar' = c1" "calendar_dates' = cd1"
    by (auto simp add: process_date_def Let_def split: if_splits sum.splits)
  with get_active_services_on_date_frames [OF g] show ?thesis by simp
qed

lemma accumulate_frames:
  "accumulate trips stop_times ds (calendar, calendar_dates, total_hours) =
     Inr (calendar', calendar_dates', total_hours') \<Longrightarrow>
   same_except {''start_date'', ''end_date''} calendar calendar' \<and>
   same_except {''date_str''} calendar_dates calendar_dates'"
proof (induction ds arbitrary: calendar calendar_dates total_hours)
  case Nil
  then show ?case by (simp add: same_except_refl)
next
  case (Cons d ds)
  from Cons.prems obtain c1 cd1 t1 where
    step: "process_date trips stop_times d (calendar, calendar_dates, total_hours) = Inr (c1, cd1, t1)"
    and rest: "accumulate trips stop_times ds (c1, cd1, t1) = Inr (calendar', calendar_dates', total_hours')"
    by (auto split: sum.splits)
  from process_date_frames [OF step] Cons.IH [OF rest] show ?case
    by (auto intro: same_except_trans)
qed

text \<open>
  Claim C2, as the code has it. The normalised columns are written into the tables that
  the functions are given: \<open>get_active_services_on_date\<close> and the preprocessing overwrite
  \<open>start_date\<close> and \<open>end_date\<close> of \<open>calendar\<close>, \<open>get_active_services_on_date\<close> writes the
  column \<open>date_str\<close> of \<open>calendar_dates\<close>, and the preprocessing overwrites
  \<open>arrival_time\<close> and \<open>departure_time\<close> of \<open>stop_times\<close>. Nothing else in these tables
  changes: the rows stay in place and every other cell and column label is as before.
\<close>

theorem only_normalised_columns_are_overwritten:
  "same_except {''start_date'', ''end_date''} calendar
     (fst (snd (get_active_services_on_date d calendar calendar_dates))) \<and>
   same_except {''date_str''} calendar_dates
     (snd (snd (get_active_services_on_date d calendar calendar_dates))) \<and>
   same_except {''start_date'', ''end_date''} calendar (normalize_calendar calendar) \<and>
   (fill_stop_times raw_stop_times = Inr (proceed stop_times) \<longrightarrow>
      same_except {''arrival_time'', ''departure_time''} raw_stop_times stop_times) \<and>
   (accumulate trips stop_times ds (calendar, calendar_dates, total_hours) =
      Inr (calendar', calendar_dates', total_hours') \<longrightarrow>
      same_except {''start_date'', ''end_date''} calendar calendar' \<and>
      same_except {''date_str''} calendar_dates calendar_dates')"
proof (intro conjI impI)
  obtain services c1 cd1 where
    g: "get_active_services_on_date d calendar calendar_dates = (services, c1, cd1)"
    by (cases "get_active_services_on_date d calendar calendar_dates") auto
  from get_active_services_on_date_frames [OF g] g
  show "same_except {''start_date'', ''end_date''} calendar
     (fst (snd (get_active_services_on_date d calendar calendar_dates)))"
    and "same_except {''date_str''} calendar_dates
     (snd (snd (get_active_services_on_date d calendar calendar_dates)))"
    by simp_all
next
  show "same_except {''start_date'', ''end_date''} calendar (normalize_calendar calendar)"
    by (rule same_except_normalize_calendar)
next
  assume "fill_stop_times raw_stop_times = Inr (proceed stop_times)"
  then show "same_except {''arrival_time'', ''departure_time''} raw_stop_times stop_times"
    by (rule same_except_fill_stop_times)
next
  assume acc: "accumulate trips stop_times ds (calendar, calendar_dates, total_hours) =
      Inr (calendar', calendar_dates', total_hours')"
  from accumulate_frames [OF acc]
  show "same_except {''start_date'', ''end_date''} calendar calendar'"
    and "same_except {''date_str''} calendar_dates calendar_dates'"
    by simp_all
qed

theorem only_normalised_columns_are_overwritten_witness:
  "fill_stop_times ex_stop_times = Inr (proceed ex_stop_times_filled) \<and>
   same_except {''arrival_time'', ''departure_time''} ex_stop_times ex_stop_times_filled \<and>
   accumulate ex_trips ex_stop_times_filled [19724] (normalize_calendar ex_calendar, ex_calendar_dates, 0) =
     Inr (normalize_calendar ex_calendar, with_date_str ex_calendar_dates, 1) \<and>
   same_except {''start_date'', ''end_date''} (normalize_calendar ex_calendar) (normalize_calendar ex_calendar) \<and>
   same_except {''date_str''} ex_calendar_dates (with_date_str ex_calendar_dates) \<and>
   same_except {''start_date'', ''end_date''} ex_calendar (normalize_calendar ex_calendar)"
proof -
  have filled: "fill_stop_times ex_stop_times = Inr (proceed ex_stop_times_filled)"
    by (simp add: fill_stop_times_def ex_stop_times_def ex_stop_times_filled_def df_eval isna_def Let_def
        cong: eval_cong)
  have acc: "accumulate ex_trips ex_stop_times_filled [19724]
        (normalize_calendar ex_calendar, ex_calendar_dates, 0) =
      Inr (normalize_calendar ex_calendar, with_date_str ex_calendar_dates, 1)"
    by (simp add: all_eval with_date_str_def ex_defs ex_stop_times_filled_def cong: eval_cong)
  note inst = only_normalised_columns_are_overwritten
    [where calendar = "normalize_calendar ex_calendar" and d = 19724
       and calendar_dates = ex_calendar_dates and raw_stop_times = ex_stop_times
       and stop_times = ex_stop_times_filled and trips = ex_trips and ds = "[19724]"
       and total_hours = 0 and calendar' = "normalize_calendar ex_calendar"
       and calendar_dates' = "with_date_str ex_calendar_dates" and total_hours' = 1]
  from inst filled acc
  have "same_except {''arrival_time'', ''departure_time''} ex_stop_times ex_stop_times_filled"
    and "same_except {''start_date'', ''end_date''} (normalize_calendar ex_calendar) (normalize_calendar ex_calendar)"
    and "same_except {''date_str''} ex_calendar_dates (with_date_str ex_calendar_dates)"
    by simp_all
  moreover have "same_except {''start_date'', ''end_date''} ex_calendar (normalize_calendar ex_calendar)"
    using only_normalised_columns_are_overwritten [where calendar = ex_calendar] by simp
  ultimately show ?thesis
    using filled acc by simp
qed

theorem tables_are_changed_in_place:
  "cell_at (hd (rows ex_calendar)) ''start_date'' = Str ''20240101'' \<and>
   cell_at (hd (rows (fst (snd (get_active_services_on_date 19724 ex_calendar ex_calendar_dates)))))
     ''start_date'' = Ts 19723 \<and>
   fst (snd (get_active_services_on_date 19724 ex_calendar ex_calendar_dates)) \<noteq> ex_calendar \<and>
   columns ex_calendar_dates = [''service_id'', ''date'', ''exception_type''] \<and>
   columns (snd (snd (get_active_services_on_date 19724 ex_calendar ex_calendar_dates))) =
     [''service_id'', ''date'', ''exception_type'', ''date_str''] \<and>
   snd (snd (get_active_services_on_date 19724 ex_calendar ex_calendar_dates)) \<noteq> ex_calendar_dates \<and>
   normalize_calendar ex_calendar \<noteq> ex_calendar \<and>
   fill_stop_times ex_stop_times = Inr (proceed ex_stop_times_filled) \<and>
   ex_stop_times_filled \<noteq> ex_stop_times"
proof -
  have cal: "fst (snd (get_active_services_on_date 19724 ex_calendar ex_calendar_dates)) =
      \<lparr>columns = calendar_columns,
       rows = [[(''service_id'', Str ''S1''), (''monday'', Str ''1''), (''tuesday'', Str ''1''),
                (''wednesday'', Str ''1''), (''thursday'', Str ''1''), (''friday'', Str ''1''),
                (''saturday'', Str ''0''), (''sunday'', Str ''0''),
                (''start_date'', Ts 19723), (''end_date'', Ts 19753)]]\<rparr>"
    by (simp add: all_eval ex_defs cong: eval_cong)
  have cd: "snd (snd (get_active_services_on_date 19724 ex_calendar ex_calendar_dates)) =
      \<lparr>columns = [''service_id'', ''date'', ''exception_type'', ''date_str''],
       rows = [[(''service_id'', Str ''S1''), (''date'', Str ''20240103''),
                (''exception_type'', Str ''2''), (''date_str'', Str ''20240103'')]]\<rparr>"
    by (simp add: all_eval ex_defs cong: eval_cong)
  have norm: "normalize_calendar ex_calendar =
      \<lparr>columns = calendar_columns,
       rows = [[(''service_id'', Str ''S1''), (''monday'', Str ''1''), (''tuesday'', Str ''1''),
                (''wednesday'', Str ''1''), (''thursday'', Str ''1''), (''friday'', Str ''1''),
                (''saturday'', Str ''0''), (''sunday'', Str ''0''),
                (''start_date'', Ts 19723), (''end_date'', Ts 19753)]]\<rparr>"
    by (simp add: all_eval ex_defs cong: eval_cong)
  have filled: "fill_stop_times ex_stop_times = Inr (proceed ex_stop_times_filled)"
    by (simp add: fill_stop_times_def ex_stop_times_def ex_stop_times_filled_def df_eval isna_def Let_def
        cong: eval_cong)
  have differ: "ex_stop_times_filled \<noteq> ex_stop_times"
    by (simp add: ex_stop_times_def ex_stop_times_filled_def)
  show ?thesis
    unfolding cal cd norm
    using filled differ
    by (simp add: ex_calendar_def ex_calendar_dates_def cell_at_def calendar_columns_def)
qed

subsection \<open>The total as a floating-point sum of span hours\<close>

lemma float_sum_Nil [simp]: "float_sum t (Inr []) = Inr t"
  by (simp add: float_sum_def)

lemma float_sum_Inl [simp]: "float_sum t (Inl e) = Inl e"
  by (simp add: float_sum_def)

lemma float_sum_append:
  "float_sum t (append_hours x y) =
     (case float_sum t x of Inl e \<Rightarrow> Inl e | Inr t' \<Rightarrow> float_sum t' y)"
  by (simp add: float_sum_def append_hours_def split: sum.splits)

lemma add_span_float_sum: "add_span grp t = float_sum t (span_hours_of_group grp)"
  by (simp add: add_span_def span_hours_of_group_def float_sum_def
      split: option.splits sum.splits prod.splits)

lemma add_spans_float_sum: "add_spans groups t = float_sum t (span_hours_of_groups groups)"
proof (induction groups arbitrary: t)
  case Nil
  then show ?case by simp
next
  case (Cons kg groups)
  obtain key grp where kg: "kg = (key, grp)" by (cases kg)
  show ?case
    by (simp add: kg float_sum_append add_span_float_sum Cons.IH split: sum.splits)
qed

lemma aggregate_float_sum: "aggregate merged t = float_sum t (span_hours_of_frame merged)"
  by (simp add: aggregate_def span_hours_of_frame_def sum_group_spans_def add_spans_float_sum Let_def
      split: sum.splits)

lemma process_date_float_sum:
  "process_date trips stop_times d (calendar, calendar_dates, t) =
     (case float_sum t (span_hours_of_services trips stop_times
              (fst (get_active_services_on_date d calendar calendar_dates))) of
        Inl e \<Rightarrow> Inl e
      | Inr t' \<Rightarrow> Inr (fst (snd (get_active_services_on_date d calendar calendar_dates)),
                      snd (snd (get_active_services_on_date d calendar calendar_dates)), t'))"
  by (simp add: process_date_def span_hours_of_services_def aggregate_float_sum Let_def
      split: prod.splits sum.splits)


lemma is_datetime_set_column_to_datetime:
  "is_datetime64_any_dtype (set_column df col (\<lambda>r. to_datetime (g r))) col"
  by (auto simp add: is_datetime64_any_dtype_def set_column_def list_all_iff cell_at_update
      to_datetime_def split: cell.splits option.splits)

lemma is_datetime_set_column_NaT:
  "is_datetime64_any_dtype (set_column df col (\<lambda>r. NaT)) col"
  by (simp add: is_datetime64_any_dtype_def set_column_def list_all_iff cell_at_update)

lemma is_datetime_set_column_other:
  "c \<noteq> col \<Longrightarrow> is_datetime64_any_dtype (set_column df col f) c = is_datetime64_any_dtype df c"
  by (simp add: is_datetime64_any_dtype_def set_column_def list_all_iff cell_at_update)

lemma columns_set_column:
  "set (columns (set_column df col f)) = insert col (set (columns df))"
  by (auto simp add: set_column_def)

lemma normalize_calendar_normalized: "dates_normalized (normalize_calendar calendar)"
  by (simp add: dates_normalized_def normalize_calendar_def Let_def columns_set_column
      is_datetime_set_column_to_datetime is_datetime_set_column_NaT is_datetime_set_column_other)

lemma normalized_calendar_is_kept:
  assumes "dates_normalized calendar"
  shows "fst (snd (get_active_services_on_date d calendar calendar_dates)) = calendar"
  using assms
  by (simp add: get_active_services_on_date_snd normalize_column_def dates_normalized_def)

lemma calendar_dates_after_call:
  "snd (snd (get_active_services_on_date d calendar calendar_dates)) = settled_dates calendar_dates"
  by (simp add: get_active_services_on_date_snd settled_dates_def)

lemma set_column_idem:
  assumes "\<And>r v. f (AList.update col v r) = f r"
  shows "set_column (set_column df col f) col f = set_column df col f"
  using assms by (simp add: set_column_def o_def)

lemma is_datetime_with_date_str:
  "is_datetime64_any_dtype (with_date_str df) ''date'' = is_datetime64_any_dtype df ''date''"
  by (simp add: with_date_str_def is_datetime_set_column_other)

lemma with_date_str_idem: "with_date_str (with_date_str df) = with_date_str df"
proof (cases "is_datetime64_any_dtype df ''date''")
  case True
  have "with_date_str (set_column df ''date_str'' (\<lambda>r. dt_strftime (cell_at r ''date''))) =
        set_column df ''date_str'' (\<lambda>r. dt_strftime (cell_at r ''date''))"
    using True
    by (simp add: with_date_str_def is_datetime_set_column_other set_column_idem cell_at_update)
  with True show ?thesis by (simp add: with_date_str_def)
next
  case False
  have "with_date_str (set_column df ''date_str'' (\<lambda>r. astype_str (cell_at r ''date''))) =
        set_column df ''date_str'' (\<lambda>r. astype_str (cell_at r ''date''))"
    using False
    by (simp add: with_date_str_def is_datetime_set_column_other set_column_idem cell_at_update)
  with False show ?thesis by (simp add: with_date_str_def)
qed

lemma with_date_str_guard:
  "\<not> df_empty df \<Longrightarrow> \<not> df_empty (with_date_str df)"
  "c \<in> set (columns df) \<Longrightarrow> c \<in> set (columns (with_date_str df))"
  by (auto simp add: with_date_str_def df_empty_def set_column_def)

lemma settled_dates_idem: "settled_dates (settled_dates df) = settled_dates df"
proof (cases "\<not> df_empty df \<and>
         list_all (\<lambda>col. col \<in> set (columns df)) [''date'', ''exception_type'', ''service_id'']")
  case True
  then have "settled_dates df = with_date_str df"
    by (simp add: settled_dates_def)
  moreover from True have "settled_dates (with_date_str df) = with_date_str (with_date_str df)"
    by (simp add: settled_dates_def with_date_str_guard)
  ultimately show ?thesis
    by (simp add: with_date_str_idem)
next
  case False
  then have "settled_dates df = df"
    unfolding settled_dates_def by (simp only: if_False)
  then show ?thesis by simp
qed

lemma exceptions_of_settled:
  "exceptions_of kind d (settled_dates df) = exceptions_of kind d df"
proof (cases "\<not> df_empty df \<and>
         list_all (\<lambda>col. col \<in> set (columns df)) [''date'', ''exception_type'', ''service_id'']")
  case True
  then have "settled_dates df = with_date_str df"
    by (simp add: settled_dates_def)
  with True show ?thesis
    by (simp add: exceptions_of_def with_date_str_guard with_date_str_idem)
next
  case False
  then have "settled_dates df = df"
    unfolding settled_dates_def by (simp only: if_False)
  then show ?thesis by simp
qed

lemma services_of_settled:
  "fst (get_active_services_on_date d calendar (settled_dates calendar_dates)) =
   fst (get_active_services_on_date d calendar calendar_dates)"
  by (simp add: get_active_services_on_date_fst exceptions_of_settled)

lemma accumulate_float_sum:
  assumes "dates_normalized calendar"
    and "cd' = calendar_dates \<or> cd' = settled_dates calendar_dates"
  shows "(case accumulate trips stop_times ds (calendar, cd', t) of
            Inl e \<Rightarrow> Inl e
          | Inr (c, cd'', t') \<Rightarrow> Inr t') =
         float_sum t (span_hours_of_dates trips stop_times calendar calendar_dates ds)"
  using assms(2)
proof (induction ds arbitrary: cd' t)
  case Nil
  then show ?case by simp
next
  case (Cons d ds)
  from Cons.prems have services:
    "fst (get_active_services_on_date d calendar cd') =
     fst (get_active_services_on_date d calendar calendar_dates)"
    by (auto simp add: services_of_settled)
  from Cons.prems have settled: "settled_dates cd' = settled_dates calendar_dates"
    by (auto simp add: settled_dates_idem)
  show ?case
  proof (cases "float_sum t (span_hours_of_services trips stop_times
                  (fst (get_active_services_on_date d calendar calendar_dates)))")
    case (Inl e)
    then show ?thesis
      by (simp add: process_date_float_sum services float_sum_append)
  next
    case (Inr t1)
    have "(case accumulate trips stop_times ds (calendar, settled_dates calendar_dates, t1) of
            Inl e \<Rightarrow> Inl e
          | Inr (c, cd'', t') \<Rightarrow> Inr t') =
         float_sum t1 (span_hours_of_dates trips stop_times calendar calendar_dates ds)"
      by (rule Cons.IH) simp
    with Inr show ?thesis
      by (simp add: process_date_float_sum services float_sum_append
          normalized_calendar_is_kept [OF assms(1)] calendar_dates_after_call settled)
  qed
qed

lemma calculate_is_float_sum:
  "calculate_service_hours_from_url gtfs_data a b = float_sum 0 (span_hours gtfs_data a b)"
proof -
  have loop: "(case accumulate trips stop_times ds (normalize_calendar calendar, calendar_dates, 0) of
            Inl e \<Rightarrow> Inl e
          | Inr (c, cd'', t') \<Rightarrow> Inr t') =
         float_sum 0 (span_hours_of_dates trips stop_times (normalize_calendar calendar) calendar_dates ds)"
    for trips stop_times ds calendar calendar_dates
    by (rule accumulate_float_sum [OF normalize_calendar_normalized]) simp
  show ?thesis
    by (simp add: calculate_service_hours_from_url_def span_hours_def loop
        split: flow.splits sum.splits)
qed

lemma append_hours_Nil [simp]: "append_hours (Inr []) y = y"
  by (simp add: append_hours_def split: sum.splits)

lemma append_hours_Inl [simp]: "append_hours (Inl e) y = Inl e"
  by (simp add: append_hours_def)

lemma append_hours_assoc:
  "append_hours (append_hours x y) z = append_hours x (append_hours y z)"
  by (simp add: append_hours_def split: sum.splits)

lemma span_hours_of_dates_append:
  "span_hours_of_dates trips stop_times calendar calendar_dates (xs @ ys) =
   append_hours (span_hours_of_dates trips stop_times calendar calendar_dates xs)
     (span_hours_of_dates trips stop_times calendar calendar_dates ys)"
  by (induction xs) (simp_all add: append_hours_assoc)

lemma span_hours_split:
  assumes "a \<le> b" and "b < c"
  shows "span_hours gtfs_data a c =
         append_hours (span_hours gtfs_data a b) (span_hours gtfs_data (b + 1) c)"
  by (simp add: span_hours_def date_range_split [OF assms] span_hours_of_dates_append
      split: flow.splits sum.splits)

lemmas span_hours_eval =
  span_hours_def span_hours_of_services_def span_hours_of_frame_def span_hours_of_group_def
  append_hours_def float_sum_def

text \<open>
  Claim C7, as the code has it. The total of a range is the floating-point sum, from
  left to right and starting at \<open>0.0\<close>, of the span hours of the range; and for
  \<open>a \<le> b < c\<close> the span hours of \<open>a..c\<close> are those of \<open>a..b\<close> followed by those of
  \<open>(b+1)..c\<close>, so that their exact sums add up.
\<close>

theorem total_is_float_sum_of_additive_span_hours:
  "calculate_service_hours_from_url gtfs_data a c = float_sum 0 (span_hours gtfs_data a c) \<and>
   calculate_service_hours_from_url gtfs_data a b = float_sum 0 (span_hours gtfs_data a b) \<and>
   calculate_service_hours_from_url gtfs_data (b + 1) c =
     float_sum 0 (span_hours gtfs_data (b + 1) c) \<and>
   (a \<le> b \<and> b < c \<longrightarrow>
      span_hours gtfs_data a c =
        append_hours (span_hours gtfs_data a b) (span_hours gtfs_data (b + 1) c)) \<and>
   (a \<le> b \<and> b < c \<and> span_hours gtfs_data a b = Inr hs \<and>
    span_hours gtfs_data (b + 1) c = Inr hs' \<longrightarrow>
      span_hours gtfs_data a c = Inr (hs @ hs') \<and>
      sum_list (hs @ hs') = sum_list hs + sum_list hs')"
proof (intro conjI impI)
  show "calculate_service_hours_from_url gtfs_data a c = float_sum 0 (span_hours gtfs_data a c)"
    and "calculate_service_hours_from_url gtfs_data a b = float_sum 0 (span_hours gtfs_data a b)"
    and "calculate_service_hours_from_url gtfs_data (b + 1) c =
      float_sum 0 (span_hours gtfs_data (b + 1) c)"
    by (rule calculate_is_float_sum)+
next
  assume "a \<le> b \<and> b < c"
  then show "span_hours gtfs_data a c =
        append_hours (span_hours gtfs_data a b) (span_hours gtfs_data (b + 1) c)"
    by (simp add: span_hours_split)
next
  assume h: "a \<le> b \<and> b < c \<and> span_hours gtfs_data a b = Inr hs \<and>
    span_hours gtfs_data (b + 1) c = Inr hs'"
  then have ab: "a \<le> b" and bc: "b < c" and e1: "span_hours gtfs_data a b = Inr hs"
    and e2: "span_hours gtfs_data (b + 1) c = Inr hs'"
    by simp_all
  have "span_hours gtfs_data a c =
        append_hours (span_hours gtfs_data a b) (span_hours gtfs_data (b + 1) c)"
    by (rule span_hours_split [OF ab bc])
  then show "span_hours gtfs_data a c = Inr (hs @ hs')"
    by (simp add: e1 e2 append_hours_def)
  show "sum_list (hs @ hs') = sum_list hs + sum_list hs'"
    by simp
qed

theorem total_is_float_sum_of_additive_span_hours_witness:
  "span_hours rounding_feed 19723 19723 = Inr [3602879701896397 / 36028797018963968] \<and>
   span_hours rounding_feed (19723 + 1) 19725 =
     Inr [3602879701896397 / 18014398509481984, 5404319552844595 / 18014398509481984] \<and>
   span_hours rounding_feed 19723 19725 =
     Inr [3602879701896397 / 36028797018963968, 3602879701896397 / 18014398509481984,
          5404319552844595 / 18014398509481984] \<and>
   calculate_service_hours_from_url rounding_feed 19723 19725 =
     float_sum 0 (Inr [3602879701896397 / 36028797018963968, 3602879701896397 / 18014398509481984,
          5404319552844595 / 18014398509481984])"
proof -
  have first: "span_hours rounding_feed 19723 19723 = Inr [3602879701896397 / 36028797018963968]"
    by (simp add: span_hours_eval all_eval rounding_defs cong: eval_cong)
  have rest: "span_hours rounding_feed (19723 + 1) 19725 =
      Inr [3602879701896397 / 18014398509481984, 5404319552844595 / 18014398509481984]"
    by (simp add: span_hours_eval all_eval rounding_defs cong: eval_cong)
  note inst = total_is_float_sum_of_additive_span_hours
    [where gtfs_data = rounding_feed and a = 19723 and b = 19723 and c = 19725
       and hs = "[3602879701896397 / 36028797018963968]"
       and hs' = "[3602879701896397 / 18014398509481984, 5404319552844595 / 18014398509481984]"]
  from inst first rest
  have whole: "span_hours rounding_feed 19723 19725 =
      Inr ([3602879701896397 / 36028797018963968] @
           [3602879701896397 / 18014398509481984, 5404319552844595 / 18014398509481984])"
    by (simp add: append_hours_def)
  from inst have "calculate_service_hours_from_url rounding_feed 19723 19725 =
      float_sum 0 (span_hours rounding_feed 19723 19725)"
    by simp
  with first rest whole show ?thesis
    by simp
qed

end
